theory Spec2Isabelle
  imports Main
begin

section \<open>Time\<close>

text \<open>
  A Go \<open>time.Time\<close> is an instant, here the number of nanoseconds since the Unix epoch
  (an unbounded integer); a \<open>time.Duration\<close> is a number of nanoseconds.
\<close>

type_synonym time = int
type_synonym duration = int

definition second :: int where
  "second = 1000000000"

section \<open>The user entity (internal/domain/user/entity/user.go)\<close>

record User =
  ID :: string
  Email :: string
  Username :: string
  Password :: string
  FullName :: string
  Role :: string
  Status :: string
  CreatedAt :: time
  UpdatedAt :: time
  DeletedAt :: "time option"

text \<open>
  \<open>NewUser\<close> reads the clock and draws a UUID; both are inputs of the model.
  \<open>DeletedAt\<close> is left at its zero value, the nil pointer.
\<close>

definition NewUser :: "time \<Rightarrow> string \<Rightarrow> string \<Rightarrow> string \<Rightarrow> string \<Rightarrow> string \<Rightarrow> string \<Rightarrow> User" where
  "NewUser now uuid email username password fullName role =
     \<lparr>ID = uuid, Email = email, Username = username, Password = password,
      FullName = fullName, Role = role, Status = ''active'',
      CreatedAt = now, UpdatedAt = now, DeletedAt = None\<rparr>"

definition IsActive :: "User \<Rightarrow> bool" where
  "IsActive u = (Status u = ''active'' \<and> DeletedAt u = None)"

definition IsAdmin :: "User \<Rightarrow> bool" where
  "IsAdmin u = (Role u = ''admin'')"

definition MarkAsDeleted :: "time \<Rightarrow> User \<Rightarrow> User" where
  "MarkAsDeleted now u = u\<lparr>DeletedAt := Some now, Status := ''inactive'', UpdatedAt := now\<rparr>"

definition User_UpdateProfile :: "time \<Rightarrow> string \<Rightarrow> User \<Rightarrow> User" where
  "User_UpdateProfile now fullName u =
     (if fullName \<noteq> [] then u\<lparr>FullName := fullName, UpdatedAt := now\<rparr>
      else u\<lparr>UpdatedAt := now\<rparr>)"

definition UpdatePassword :: "time \<Rightarrow> string \<Rightarrow> User \<Rightarrow> User" where
  "UpdatePassword now hashedPassword u = u\<lparr>Password := hashedPassword, UpdatedAt := now\<rparr>"

definition ChangeStatus :: "time \<Rightarrow> string \<Rightarrow> User \<Rightarrow> User" where
  "ChangeStatus now status u = u\<lparr>Status := status, UpdatedAt := now\<rparr>"

section \<open>Constants (internal/shared/constants)\<close>

definition RoleAdmin :: string where "RoleAdmin = ''admin''"
definition RoleUser :: string where "RoleUser = ''user''"
definition ContextKeyUserID :: string where "ContextKeyUserID = ''user_id''"
definition ContextKeyUserEmail :: string where "ContextKeyUserEmail = ''user_email''"
definition ContextKeyUserRole :: string where "ContextKeyUserRole = ''user_role''"
definition HeaderAuthorization :: string where "HeaderAuthorization = ''Authorization''"
definition CacheKeyUserPrefix :: string where "CacheKeyUserPrefix = ''user:''"
definition CacheTTLMedium :: int where "CacheTTLMedium = 1800"

section \<open>The JWT library as the token manager uses it\<close>

text \<open>
  The token manager calls github.com/golang-jwt/jwt/v5, which is not part of the
  repository. This section states the behaviour of the library that the manager relies
  on, symbolically:
  \<^item> a claims set is a JSON object, a list of members; decoding it into a Go struct reads
    the members the struct declares and skips every other member (\<open>encoding/json\<close>
    without \<open>DisallowUnknownFields\<close>); a member of the wrong JSON type is a decoding error;
  \<^item> a numeric date is a whole number of seconds (\<open>NewNumericDate\<close> truncates to
    \<open>TimePrecision\<close>, one second);
  \<^item> the HMAC signature is ideal: it verifies under an algorithm and a key exactly when
    it was computed under that algorithm and that key over that very content;
  \<^item> the compact serialisation (three base64url segments) is a pair of functions
    \<open>enc\<close> and \<open>dec\<close>, parameters of the model; \<open>dec\<close> gives \<open>None\<close> on a string
    that is not three segments of well-formed JSON with a string \<open>alg\<close> header.
\<close>

datatype jval = JStr string | JNum int | JList "string list" | JOther

type_synonym json_object = "(string \<times> jval) list"

text \<open>A repeated member name: the last one wins, as in \<open>json.Unmarshal\<close>.\<close>

definition json_get :: "json_object \<Rightarrow> string \<Rightarrow> jval option" where
  "json_get obj k = map_of (rev obj) k"

fun dec_string :: "jval option \<Rightarrow> string option" where
  "dec_string None = Some []"
| "dec_string (Some (JStr s)) = Some s"
| "dec_string (Some _) = None"

fun dec_date :: "jval option \<Rightarrow> int option option" where
  "dec_date None = Some None"
| "dec_date (Some (JNum n)) = Some (Some n)"
| "dec_date (Some _) = None"

fun dec_strings :: "jval option \<Rightarrow> string list option" where
  "dec_strings None = Some []"
| "dec_strings (Some (JStr s)) = Some [s]"
| "dec_strings (Some (JList ss)) = Some ss"
| "dec_strings (Some _) = None"

text \<open>
  \<open>jwt.RegisteredClaims\<close>, and the manager's \<open>Claims\<close> struct that embeds it. The
  field \<open>ID\<close> of the registered claims is \<open>TokenID\<close> here, and the three fields of
  \<open>Claims\<close> carry the prefix \<open>Claim\<close>, since the user entity has fields of the same names.
\<close>

record RegisteredClaims =
  Issuer :: string
  Subject :: string
  Audience :: "string list"
  ExpiresAt :: "int option"
  NotBefore :: "int option"
  IssuedAt :: "int option"
  TokenID :: string

record Claims = RegisteredClaims +
  ClaimUserID :: string
  ClaimEmail :: string
  ClaimRole :: string

definition NewNumericDate :: "time \<Rightarrow> int option" where
  "NewNumericDate t = Some (t div second)"

definition decode_RegisteredClaims :: "json_object \<Rightarrow> RegisteredClaims option" where
  "decode_RegisteredClaims obj =
     Option.bind (dec_string (json_get obj ''iss'')) (\<lambda>iss.
     Option.bind (dec_string (json_get obj ''sub'')) (\<lambda>sub.
     Option.bind (dec_strings (json_get obj ''aud'')) (\<lambda>aud.
     Option.bind (dec_date (json_get obj ''exp'')) (\<lambda>exp.
     Option.bind (dec_date (json_get obj ''nbf'')) (\<lambda>nbf.
     Option.bind (dec_date (json_get obj ''iat'')) (\<lambda>iat.
     Option.bind (dec_string (json_get obj ''jti'')) (\<lambda>jti.
     Some \<lparr>Issuer = iss, Subject = sub, Audience = aud, ExpiresAt = exp,
           NotBefore = nbf, IssuedAt = iat, TokenID = jti\<rparr>)))))))"

definition decode_Claims :: "json_object \<Rightarrow> Claims option" where
  "decode_Claims obj =
     Option.bind (dec_string (json_get obj ''user_id'')) (\<lambda>uid.
     Option.bind (dec_string (json_get obj ''email'')) (\<lambda>email.
     Option.bind (dec_string (json_get obj ''role'')) (\<lambda>role.
     Option.bind (decode_RegisteredClaims obj) (\<lambda>rc.
     Some \<lparr>Issuer = Issuer rc, Subject = Subject rc, Audience = Audience rc,
           ExpiresAt = ExpiresAt rc, NotBefore = NotBefore rc, IssuedAt = IssuedAt rc,
           TokenID = TokenID rc,
           ClaimUserID = uid, ClaimEmail = email, ClaimRole = role\<rparr>))))"

text \<open>
  Marshalling: the registered claims are all \<open>omitempty\<close>; \<open>user_id\<close>, \<open>email\<close> and
  \<open>role\<close> are always written.
\<close>

definition marshal_RegisteredClaims :: "'a RegisteredClaims_scheme \<Rightarrow> json_object" where
  "marshal_RegisteredClaims rc =
     (if Issuer rc = [] then [] else [(''iss'', JStr (Issuer rc))]) @
     (if Subject rc = [] then [] else [(''sub'', JStr (Subject rc))]) @
     (if Audience rc = [] then [] else [(''aud'', JList (Audience rc))]) @
     (case ExpiresAt rc of None \<Rightarrow> [] | Some e \<Rightarrow> [(''exp'', JNum e)]) @
     (case NotBefore rc of None \<Rightarrow> [] | Some n \<Rightarrow> [(''nbf'', JNum n)]) @
     (case IssuedAt rc of None \<Rightarrow> [] | Some i \<Rightarrow> [(''iat'', JNum i)]) @
     (if TokenID rc = [] then [] else [(''jti'', JStr (TokenID rc))])"

definition marshal_Claims :: "Claims \<Rightarrow> json_object" where
  "marshal_Claims c =
     [(''user_id'', JStr (ClaimUserID c)), (''email'', JStr (ClaimEmail c)),
      (''role'', JStr (ClaimRole c))] @ marshal_RegisteredClaims c"

datatype signature = HMAC_Sig string string json_object | Garbage string

record jws =
  alg :: string
  payload :: json_object
  sig :: signature

datatype SigningMethod = SigningMethodHMAC string | SigningMethodOther string

definition hmac_algs :: "string list" where
  "hmac_algs = [''HS256'', ''HS384'', ''HS512'']"

definition GetSigningMethod :: "string \<Rightarrow> SigningMethod option" where
  "GetSigningMethod a =
     (if a \<in> set hmac_algs then Some (SigningMethodHMAC a)
      else if a \<in> set [''RS256'', ''RS384'', ''RS512'', ''PS256'', ''PS384'', ''PS512'',
                         ''ES256'', ''ES384'', ''ES512'', ''EdDSA'', ''none'']
           then Some (SigningMethodOther a)
      else None)"

definition SignedString :: "string \<Rightarrow> string \<Rightarrow> json_object \<Rightarrow> jws" where
  "SignedString a key obj = \<lparr>alg = a, payload = obj, sig = HMAC_Sig a key obj\<rparr>"

fun Verify :: "SigningMethod \<Rightarrow> string \<Rightarrow> jws \<Rightarrow> bool" where
  "Verify (SigningMethodHMAC a) key t = (sig t = HMAC_Sig a key (payload t))"
| "Verify (SigningMethodOther a) key t = False"

datatype claim_error = ErrTokenExpired | ErrTokenNotValidYet

datatype jwt_lib_error =
    ErrTokenMalformed
  | ErrTokenUnverifiable
  | ErrTokenSignatureInvalid
  | ErrTokenInvalidClaims "claim_error list"

text \<open>
  The default validator: the expiry and the not-before date are checked when present,
  each failure is collected; the issued-at date is not checked.
\<close>

definition Validate :: "time \<Rightarrow> 'a RegisteredClaims_scheme \<Rightarrow> claim_error list" where
  "Validate now rc =
     (case ExpiresAt rc of None \<Rightarrow> []
      | Some e \<Rightarrow> if now < e * second then [] else [ErrTokenExpired]) @
     (case NotBefore rc of None \<Rightarrow> []
      | Some n \<Rightarrow> if now < n * second then [ErrTokenNotValidYet] else [])"

record 'c Token =
  TokenClaims :: 'c
  Valid :: bool

text \<open>
  \<open>ParseWithClaims\<close>, in the library's order: split and decode the segments, decode
  the claims into the struct given, look the signing method up, ask the key function for
  the key, verify the signature, validate the claims.
\<close>

definition ParseWithClaims ::
  "(string \<Rightarrow> jws option) \<Rightarrow> (json_object \<Rightarrow> 'c option) \<Rightarrow> ('c \<Rightarrow> claim_error list) \<Rightarrow>
   (SigningMethod \<Rightarrow> 'e + string) \<Rightarrow> string \<Rightarrow> jwt_lib_error + 'c Token" where
  "ParseWithClaims dec decode_claims validate keyFunc tokenString =
     (case dec tokenString of
        None \<Rightarrow> Inl ErrTokenMalformed
      | Some t \<Rightarrow>
     (case decode_claims (payload t) of
        None \<Rightarrow> Inl ErrTokenMalformed
      | Some claims \<Rightarrow>
     (case GetSigningMethod (alg t) of
        None \<Rightarrow> Inl ErrTokenUnverifiable
      | Some method \<Rightarrow>
     (case keyFunc method of
        Inl e \<Rightarrow> Inl ErrTokenUnverifiable
      | Inr key \<Rightarrow>
          if \<not> Verify method key t then Inl ErrTokenSignatureInvalid
          else (case validate claims of
                  [] \<Rightarrow> Inr \<lparr>TokenClaims = claims, Valid = True\<rparr>
                | e # es \<Rightarrow> Inl (ErrTokenInvalidClaims (e # es)))))))"

text \<open>\<open>errors.Is(err, jwt.ErrTokenExpired)\<close> on an error of the library.\<close>

fun Is_ErrTokenExpired :: "jwt_lib_error \<Rightarrow> bool" where
  "Is_ErrTokenExpired (ErrTokenInvalidClaims es) = (ErrTokenExpired \<in> set es)"
| "Is_ErrTokenExpired _ = False"

section \<open>The token manager (pkg/jwt/jwt.go)\<close>

text \<open>
  The three error values of the package carry the prefix \<open>jwt_\<close> (the shared errors
  package has an \<open>ErrInvalidToken\<close> of its own). \<open>jwt_ErrInvalidToken\<close> carries the
  cause when the manager wraps a library error
  (\<open>fmt.Errorf("%w: %v", ErrInvalidToken, err)\<close>) and \<open>None\<close> when it returns the
  bare sentinel.
\<close>

datatype token_error =
    jwt_ErrInvalidToken "jwt_lib_error option"
  | jwt_ErrExpiredToken
  | jwt_ErrInvalidSigningMethod

record Manager =
  secretKey :: string
  accessTokenDuration :: duration
  refreshTokenDuration :: duration

definition NewManager :: "string \<Rightarrow> duration \<Rightarrow> duration \<Rightarrow> Manager" where
  "NewManager key accessDur refreshDur =
     \<lparr>secretKey = key, accessTokenDuration = accessDur, refreshTokenDuration = refreshDur\<rparr>"

text \<open>
  The clock and the UUID are inputs. \<open>SignedString\<close> with HS256 and a byte-slice key has
  no failing path, so the error of the Go signature is never returned: the result is
  \<open>Inr\<close>, and the callers keep their error branch.
\<close>

definition access_claims :: "Manager \<Rightarrow> time \<Rightarrow> string \<Rightarrow> string \<Rightarrow> string \<Rightarrow> string \<Rightarrow> Claims" where
  "access_claims m now uuid userID email role =
     \<lparr>Issuer = [], Subject = userID, Audience = [],
      ExpiresAt = NewNumericDate (now + accessTokenDuration m),
      NotBefore = NewNumericDate now, IssuedAt = NewNumericDate now, TokenID = uuid,
      ClaimUserID = userID, ClaimEmail = email, ClaimRole = role\<rparr>"

definition refresh_claims :: "Manager \<Rightarrow> time \<Rightarrow> string \<Rightarrow> string \<Rightarrow> RegisteredClaims" where
  "refresh_claims m now uuid userID =
     \<lparr>Issuer = [], Subject = userID, Audience = [],
      ExpiresAt = NewNumericDate (now + refreshTokenDuration m),
      NotBefore = NewNumericDate now, IssuedAt = NewNumericDate now, TokenID = uuid\<rparr>"

definition access_jws :: "Manager \<Rightarrow> time \<Rightarrow> string \<Rightarrow> string \<Rightarrow> string \<Rightarrow> string \<Rightarrow> jws" where
  "access_jws m now uuid userID email role =
     SignedString ''HS256'' (secretKey m)
       (marshal_Claims (access_claims m now uuid userID email role))"

definition refresh_jws :: "Manager \<Rightarrow> time \<Rightarrow> string \<Rightarrow> string \<Rightarrow> jws" where
  "refresh_jws m now uuid userID =
     SignedString ''HS256'' (secretKey m)
       (marshal_RegisteredClaims (refresh_claims m now uuid userID))"

definition GenerateAccessToken ::
  "Manager \<Rightarrow> (jws \<Rightarrow> string) \<Rightarrow> time \<Rightarrow> string \<Rightarrow> string \<Rightarrow> string \<Rightarrow> string \<Rightarrow> token_error + string" where
  "GenerateAccessToken m enc now uuid userID email role =
     Inr (enc (access_jws m now uuid userID email role))"

definition GenerateRefreshToken ::
  "Manager \<Rightarrow> (jws \<Rightarrow> string) \<Rightarrow> time \<Rightarrow> string \<Rightarrow> string \<Rightarrow> token_error + string" where
  "GenerateRefreshToken m enc now uuid userID =
     Inr (enc (refresh_jws m now uuid userID))"

fun keyFunc :: "Manager \<Rightarrow> SigningMethod \<Rightarrow> token_error + string" where
  "keyFunc m (SigningMethodHMAC a) = Inr (secretKey m)"
| "keyFunc m (SigningMethodOther a) = Inl jwt_ErrInvalidSigningMethod"

definition ValidateAccessToken ::
  "Manager \<Rightarrow> (string \<Rightarrow> jws option) \<Rightarrow> time \<Rightarrow> string \<Rightarrow> token_error + Claims" where
  "ValidateAccessToken m dec now tokenString =
     (case ParseWithClaims dec decode_Claims (Validate now) (keyFunc m) tokenString of
        Inl err \<Rightarrow>
          if Is_ErrTokenExpired err then Inl jwt_ErrExpiredToken
          else Inl (jwt_ErrInvalidToken (Some err))
      | Inr token \<Rightarrow>
          if \<not> Valid token then Inl (jwt_ErrInvalidToken None)
          else Inr (TokenClaims token))"

definition ValidateRefreshToken ::
  "Manager \<Rightarrow> (string \<Rightarrow> jws option) \<Rightarrow> time \<Rightarrow> string \<Rightarrow> token_error + string" where
  "ValidateRefreshToken m dec now tokenString =
     (case ParseWithClaims dec decode_RegisteredClaims (Validate now) (keyFunc m) tokenString of
        Inl err \<Rightarrow>
          if Is_ErrTokenExpired err then Inl jwt_ErrExpiredToken
          else Inl (jwt_ErrInvalidToken (Some err))
      | Inr token \<Rightarrow>
          if \<not> Valid token then Inl (jwt_ErrInvalidToken None)
          else Inr (Subject (TokenClaims token)))"

text \<open>The two kinds of failure a caller of the validation can tell apart.\<close>

definition is_invalid_token :: "token_error + 'a \<Rightarrow> bool" where
  "is_invalid_token r = (case r of Inl (jwt_ErrInvalidToken cause) \<Rightarrow> True | _ \<Rightarrow> False)"

definition is_expired_token :: "token_error + 'a \<Rightarrow> bool" where
  "is_expired_token r = (case r of Inl jwt_ErrExpiredToken \<Rightarrow> True | _ \<Rightarrow> False)"

text \<open>A token signed under the manager's key with an algorithm of the HMAC family.\<close>

definition signed_by :: "Manager \<Rightarrow> jws \<Rightarrow> bool" where
  "signed_by m t = (alg t \<in> set hmac_algs \<and> sig t = HMAC_Sig (alg t) (secretKey m) (payload t))"

definition ExtractUserID ::
  "Manager \<Rightarrow> (string \<Rightarrow> jws option) \<Rightarrow> time \<Rightarrow> string \<Rightarrow> token_error + string" where
  "ExtractUserID m dec now tokenString =
     (case ValidateAccessToken m dec now tokenString of
        Inl err \<Rightarrow> Inl err
      | Inr claims \<Rightarrow> Inr (ClaimUserID claims))"

section \<open>The password hasher (pkg/crypto/password.go)\<close>

text \<open>
  The hasher wraps golang.org/x/crypto/bcrypt, which is not part of the repository. Its
  two functions are parameters: \<open>GenerateFromPassword\<close> takes the password, the cost and
  the random salt it draws, and gives \<open>None\<close> when it returns an error;
  \<open>CompareHashAndPassword\<close> is true when it returns nil.
\<close>

record bcrypt =
  GenerateFromPassword :: "string \<Rightarrow> int \<Rightarrow> string \<Rightarrow> string option"
  CompareHashAndPassword :: "string \<Rightarrow> string \<Rightarrow> bool"

record PasswordHasher =
  cost :: int

datatype hash_error = FailedToHashPassword

definition NewPasswordHasher :: "int \<Rightarrow> PasswordHasher" where
  "NewPasswordHasher c = \<lparr>cost = c\<rparr>"

definition Hash :: "bcrypt \<Rightarrow> PasswordHasher \<Rightarrow> string \<Rightarrow> string \<Rightarrow> hash_error + string" where
  "Hash lib h salt password =
     (case GenerateFromPassword lib password (cost h) salt of
        None \<Rightarrow> Inl FailedToHashPassword
      | Some hashedBytes \<Rightarrow> Inr hashedBytes)"

definition Compare :: "bcrypt \<Rightarrow> PasswordHasher \<Rightarrow> string \<Rightarrow> string \<Rightarrow> bool" where
  "Compare lib h hashedPassword password = CompareHashAndPassword lib hashedPassword password"

definition IsValid :: "bcrypt \<Rightarrow> PasswordHasher \<Rightarrow> string \<Rightarrow> string \<Rightarrow> bool" where
  "IsValid lib h hashedPassword password = Compare lib h hashedPassword password"

section \<open>Errors of the application\<close>

text \<open>
  Modelled from the spec: the package internal/shared/errors is not among the sources.
  Its sentinel errors are the names the use case and the handlers refer to; the spec
  treats them as distinct outcomes, so they are distinct constructors, and \<open>errors.Is\<close>
  against a sentinel is equality. \<open>ErrWrapped\<close> is an error of the storage layer wrapped
  by the repository with \<open>fmt.Errorf("...: %w", err)\<close>; it matches no sentinel.
\<close>

datatype pg_error =
    ConnectionFailure
  | StringDataRightTruncation
  | CheckViolation string
  | UniqueViolation string
  | InvalidRowCount

datatype app_error =
    ErrInternal
  | ErrEmailAlreadyExists
  | ErrUsernameAlreadyExists
  | ErrInvalidCredentials
  | ErrUnauthorized
  | ErrInvalidToken
  | ErrUserNotFound
  | ErrInvalidPassword
  | ErrWrapped string pg_error

definition errors_Is :: "app_error \<Rightarrow> app_error \<Rightarrow> bool" where
  "errors_Is err target = (err = target)"

section \<open>The repository interface (UserRepository)\<close>

text \<open>
  The use case holds a \<open>UserRepository\<close>, an interface. Its methods act on a store of
  type \<open>'s\<close>: a method that writes returns the error (\<open>None\<close> for nil) and the new
  store, a method that reads returns its result.
\<close>

record 's UserRepository =
  repo_Create :: "User \<Rightarrow> 's \<Rightarrow> app_error option \<times> 's"
  repo_GetByID :: "string \<Rightarrow> 's \<Rightarrow> app_error + User"
  repo_GetByEmail :: "string \<Rightarrow> 's \<Rightarrow> app_error + User"
  repo_GetByUsername :: "string \<Rightarrow> 's \<Rightarrow> app_error + User"
  repo_Update :: "User \<Rightarrow> 's \<Rightarrow> app_error option \<times> 's"
  repo_Delete :: "string \<Rightarrow> 's \<Rightarrow> app_error option \<times> 's"
  repo_List :: "int \<Rightarrow> int \<Rightarrow> string \<Rightarrow> string \<Rightarrow> string \<Rightarrow> 's \<Rightarrow> app_error + (User list \<times> int)"
  repo_ExistsByEmail :: "string \<Rightarrow> 's \<Rightarrow> app_error + bool"
  repo_ExistsByUsername :: "string \<Rightarrow> 's \<Rightarrow> app_error + bool"

section \<open>The PostgreSQL repository and the users table\<close>

text \<open>
  The database is the \<open>users\<close> table of migrations/000001, a list of rows in insertion
  order, the value of \<open>NOW()\<close>, and whether the connection works (a statement on a
  broken connection fails and changes nothing). The table's constraints are the
  column lengths, \<open>chk_role\<close>, \<open>chk_status\<close>, the primary key on \<open>id\<close> and the
  \<open>UNIQUE\<close> constraints on \<open>email\<close> and \<open>username\<close>, which hold over every row,
  soft-deleted rows included. Timestamps are stored as given, and a value longer than
  its column is an error.
\<close>

record pg_db =
  users :: "User list"
  db_now :: time
  db_up :: bool

definition fits_columns :: "User \<Rightarrow> bool" where
  "fits_columns u =
     (length (ID u) \<le> 36 \<and> length (Email u) \<le> 255 \<and> length (Username u) \<le> 50 \<and>
      length (Password u) \<le> 255 \<and> length (FullName u) \<le> 100 \<and>
      length (Role u) \<le> 20 \<and> length (Status u) \<le> 20)"

definition row_violation :: "User \<Rightarrow> pg_error option" where
  "row_violation u =
     (if \<not> fits_columns u then Some StringDataRightTruncation
      else if Role u \<notin> set [''admin'', ''user''] then Some (CheckViolation ''chk_role'')
      else if Status u \<notin> set [''active'', ''inactive'', ''banned'']
           then Some (CheckViolation ''chk_status'')
      else None)"

definition unique_violation :: "User list \<Rightarrow> User \<Rightarrow> pg_error option" where
  "unique_violation others u =
     (if Email u \<in> set (map Email others) then Some (UniqueViolation ''users_email_key'')
      else if Username u \<in> set (map Username others)
           then Some (UniqueViolation ''users_username_key'')
      else None)"

definition insert_violation :: "User list \<Rightarrow> User \<Rightarrow> pg_error option" where
  "insert_violation rows u =
     (case row_violation u of
        Some e \<Rightarrow> Some e
      | None \<Rightarrow>
          if ID u \<in> set (map ID rows) then Some (UniqueViolation ''users_pkey'')
          else unique_violation rows u)"

text \<open>The \<open>INSERT\<close> names no \<open>deleted_at\<close> column: the new row has it \<open>NULL\<close>.\<close>

definition Postgres_Create :: "User \<Rightarrow> pg_db \<Rightarrow> app_error option \<times> pg_db" where
  "Postgres_Create user d =
     (if \<not> db_up d then (Some (ErrWrapped ''failed to create user'' ConnectionFailure), d)
      else case insert_violation (users d) user of
             Some e \<Rightarrow> (Some (ErrWrapped ''failed to create user'' e), d)
           | None \<Rightarrow> (None, d\<lparr>users := users d @ [user\<lparr>DeletedAt := None\<rparr>]\<rparr>))"

definition live :: "User \<Rightarrow> bool" where
  "live u = (DeletedAt u = None)"

definition Postgres_GetByID :: "string \<Rightarrow> pg_db \<Rightarrow> app_error + User" where
  "Postgres_GetByID id' d =
     (if \<not> db_up d then Inl (ErrWrapped ''failed to get user by id'' ConnectionFailure)
      else case find (\<lambda>u. ID u = id' \<and> live u) (users d) of
             None \<Rightarrow> Inl ErrUserNotFound
           | Some user \<Rightarrow> Inr user)"

definition Postgres_GetByEmail :: "string \<Rightarrow> pg_db \<Rightarrow> app_error + User" where
  "Postgres_GetByEmail email d =
     (if \<not> db_up d then Inl (ErrWrapped ''failed to get user by email'' ConnectionFailure)
      else case find (\<lambda>u. Email u = email \<and> live u) (users d) of
             None \<Rightarrow> Inl ErrUserNotFound
           | Some user \<Rightarrow> Inr user)"

definition Postgres_GetByUsername :: "string \<Rightarrow> pg_db \<Rightarrow> app_error + User" where
  "Postgres_GetByUsername username d =
     (if \<not> db_up d then Inl (ErrWrapped ''failed to get user by username'' ConnectionFailure)
      else case find (\<lambda>u. Username u = username \<and> live u) (users d) of
             None \<Rightarrow> Inl ErrUserNotFound
           | Some user \<Rightarrow> Inr user)"

text \<open>
  \<open>UPDATE ... WHERE id = $1 AND deleted_at IS NULL\<close>: no matching row is zero rows
  affected, before any constraint is looked at; otherwise the new values must satisfy the
  table's constraints against the rows that are not being updated.
\<close>

definition Postgres_Update :: "User \<Rightarrow> pg_db \<Rightarrow> app_error option \<times> pg_db" where
  "Postgres_Update user d =
     (if \<not> db_up d then (Some (ErrWrapped ''failed to update user'' ConnectionFailure), d)
      else
        let hit = (\<lambda>r. ID r = ID user \<and> live r);
            others = filter (\<lambda>r. \<not> hit r) (users d)
        in if filter hit (users d) = [] then (Some ErrUserNotFound, d)
           else case row_violation user of
                  Some e \<Rightarrow> (Some (ErrWrapped ''failed to update user'' e), d)
                | None \<Rightarrow>
               (case unique_violation others user of
                  Some e \<Rightarrow> (Some (ErrWrapped ''failed to update user'' e), d)
                | None \<Rightarrow>
                    (None, d\<lparr>users := map (\<lambda>r. if hit r
                        then r\<lparr>Email := Email user, Username := Username user,
                               Password := Password user, FullName := FullName user,
                               Role := Role user, Status := Status user,
                               UpdatedAt := UpdatedAt user\<rparr>
                        else r) (users d)\<rparr>)))"

definition Postgres_Delete :: "string \<Rightarrow> pg_db \<Rightarrow> app_error option \<times> pg_db" where
  "Postgres_Delete id' d =
     (if \<not> db_up d then (Some (ErrWrapped ''failed to delete user'' ConnectionFailure), d)
      else
        let hit = (\<lambda>r. ID r = id' \<and> live r)
        in if filter hit (users d) = [] then (Some ErrUserNotFound, d)
           else (None, d\<lparr>users := map (\<lambda>r. if hit r
                   then r\<lparr>DeletedAt := Some (db_now d), Status := ''inactive'',
                          UpdatedAt := db_now d\<rparr>
                   else r) (users d)\<rparr>))"

text \<open>
  \<open>List\<close>: the \<open>ILIKE\<close> operator of the database is a parameter (value, then pattern).
  Both queries keep only rows with \<open>deleted_at IS NULL\<close>; the count comes first, then
  the page, newest first; a negative \<open>LIMIT\<close> or \<open>OFFSET\<close> is an error of the second
  query.
\<close>

definition list_filter :: "(string \<Rightarrow> string \<Rightarrow> bool) \<Rightarrow> string \<Rightarrow> string \<Rightarrow> string \<Rightarrow> User \<Rightarrow> bool" where
  "list_filter ilike search role status u =
     (live u \<and>
      (search = [] \<or> ilike (Email u) (''%'' @ search @ ''%'') \<or>
         ilike (Username u) (''%'' @ search @ ''%'') \<or> ilike (FullName u) (''%'' @ search @ ''%'')) \<and>
      (role = [] \<or> Role u = role) \<and>
      (status = [] \<or> Status u = status))"

definition Postgres_List ::
  "(string \<Rightarrow> string \<Rightarrow> bool) \<Rightarrow> int \<Rightarrow> int \<Rightarrow> string \<Rightarrow> string \<Rightarrow> string \<Rightarrow> pg_db \<Rightarrow>
   app_error + (User list \<times> int)" where
  "Postgres_List ilike page pageSize search role status d =
     (let offset = (page - 1) * pageSize;
          matching = filter (list_filter ilike search role status) (users d);
          count = int (length matching)
      in if \<not> db_up d then Inl (ErrWrapped ''failed to count users'' ConnectionFailure)
         else if pageSize < 0 \<or> offset < 0
              then Inl (ErrWrapped ''failed to list users'' InvalidRowCount)
         else Inr (take (nat pageSize) (drop (nat offset)
                     (sort_key (\<lambda>u. - CreatedAt u) matching)), count))"

definition Postgres_ExistsByEmail :: "string \<Rightarrow> pg_db \<Rightarrow> app_error + bool" where
  "Postgres_ExistsByEmail email d =
     (if \<not> db_up d then Inl (ErrWrapped ''failed to check email existence'' ConnectionFailure)
      else Inr (filter (\<lambda>u. Email u = email \<and> live u) (users d) \<noteq> []))"

definition Postgres_ExistsByUsername :: "string \<Rightarrow> pg_db \<Rightarrow> app_error + bool" where
  "Postgres_ExistsByUsername username d =
     (if \<not> db_up d then Inl (ErrWrapped ''failed to check username existence'' ConnectionFailure)
      else Inr (filter (\<lambda>u. Username u = username \<and> live u) (users d) \<noteq> []))"

definition NewPostgresUserRepository :: "(string \<Rightarrow> string \<Rightarrow> bool) \<Rightarrow> pg_db UserRepository" where
  "NewPostgresUserRepository ilike =
     \<lparr>repo_Create = Postgres_Create, repo_GetByID = Postgres_GetByID,
      repo_GetByEmail = Postgres_GetByEmail, repo_GetByUsername = Postgres_GetByUsername,
      repo_Update = Postgres_Update, repo_Delete = Postgres_Delete,
      repo_List = Postgres_List ilike,
      repo_ExistsByEmail = Postgres_ExistsByEmail,
      repo_ExistsByUsername = Postgres_ExistsByUsername\<rparr>"

text \<open>The table's uniqueness constraints, as a property of a database state.\<close>

definition table_ok :: "pg_db \<Rightarrow> bool" where
  "table_ok d =
     (distinct (map ID (users d)) \<and> distinct (map Email (users d)) \<and>
      distinct (map Username (users d)))"

text \<open>
  What the \<open>UPDATE\<close> of \<open>Delete\<close> does to one row: the row with the given id, if it
  is not deleted, gets the assignments that \<open>MarkAsDeleted\<close> makes on the entity.
\<close>

definition tombstone :: "string \<Rightarrow> time \<Rightarrow> User \<Rightarrow> User" where
  "tombstone i t r = (if ID r = i \<and> live r then MarkAsDeleted t r else r)"

section \<open>The cache (internal/infrastructure/cache)\<close>

text \<open>
  The Redis wrapper forwards to the client: the cache is a map from keys to strings and
  whether the server answers. What the client does with the value handed to \<open>Set\<close>
  (an \<open>interface{}\<close>; here always a user) is the parameter \<open>marshal\<close>, \<open>None\<close> when
  the client cannot marshal it. Expiry of entries is not part of the model.
\<close>

record Redis =
  entries :: "string \<rightharpoonup> string"
  redis_up :: bool

datatype redis_error = RedisNil | RedisDown | RedisCannotMarshal

definition Redis_Get :: "string \<Rightarrow> Redis \<Rightarrow> redis_error + string" where
  "Redis_Get key r =
     (if \<not> redis_up r then Inl RedisDown
      else case entries r key of None \<Rightarrow> Inl RedisNil | Some v \<Rightarrow> Inr v)"

definition Redis_Set :: "(User \<Rightarrow> string option) \<Rightarrow> string \<Rightarrow> User \<Rightarrow> int \<Rightarrow> Redis \<Rightarrow> redis_error option \<times> Redis" where
  "Redis_Set marshal key val expiration r =
     (case marshal val of
        None \<Rightarrow> (Some RedisCannotMarshal, r)
      | Some v \<Rightarrow>
          if \<not> redis_up r then (Some RedisDown, r)
          else (None, r\<lparr>entries := (entries r)(key \<mapsto> v)\<rparr>))"

definition Redis_Delete :: "string \<Rightarrow> Redis \<Rightarrow> redis_error option \<times> Redis" where
  "Redis_Delete key r =
     (if \<not> redis_up r then (Some RedisDown, r)
      else (None, r\<lparr>entries := (entries r)(key := None)\<rparr>))"

section \<open>The user use case (internal/domain/user/usecase/user_usecase.go)\<close>

text \<open>
  The response records carry the prefix \<open>Resp\<close> on the fields that the user entity also
  has, and the request records the prefix \<open>Req\<close>. Calls of the logger are left out: they
  change no result.
\<close>

record UserResponse =
  RespID :: string
  RespEmail :: string
  RespUsername :: string
  RespFullName :: string
  RespRole :: string
  RespStatus :: string
  RespCreatedAt :: time
  RespUpdatedAt :: time

record RegisterRequest =
  ReqEmail :: string
  ReqUsername :: string
  ReqPassword :: string
  ReqFullName :: string

record LoginRequest =
  LoginEmail :: string
  LoginPassword :: string

record LoginResponse =
  RespUser :: UserResponse
  RespAccessToken :: string
  RespRefreshToken :: string
  RespTokenType :: string
  RespExpiresIn :: int

record RefreshTokenResponse =
  NewAccessToken :: string
  NewRefreshToken :: string
  NewTokenType :: string
  NewExpiresIn :: int

record ChangePasswordRequest =
  OldPassword :: string
  NewPassword :: string

text \<open>
  The use case and what it is built from; the libraries outside the repository that its
  parts call; and a state of the world, the store behind the repository and the cache.
\<close>

record 's UserUsecase =
  userRepo :: "'s UserRepository"
  passwordHasher :: PasswordHasher
  jwtManager :: Manager

record libraries =
  jwt_enc :: "jws \<Rightarrow> string"
  jwt_dec :: "string \<Rightarrow> jws option"
  bcrypt_lib :: bcrypt
  redis_marshal :: "User \<Rightarrow> string option"

record 's world =
  store :: 's
  cache :: Redis

text \<open>
  What a call draws from the clock and from the random source: the time and the UUID of
  each of the two token generations.
\<close>

record token_draw =
  access_now :: time
  access_uuid :: string
  refresh_now :: time
  refresh_uuid :: string

definition toUserResponse :: "User \<Rightarrow> UserResponse" where
  "toUserResponse user =
     \<lparr>RespID = ID user, RespEmail = Email user, RespUsername = Username user,
      RespFullName = FullName user, RespRole = Role user, RespStatus = Status user,
      RespCreatedAt = CreatedAt user, RespUpdatedAt = UpdatedAt user\<rparr>"

definition Register ::
  "'s UserUsecase \<Rightarrow> libraries \<Rightarrow> time \<Rightarrow> string \<Rightarrow> string \<Rightarrow> RegisterRequest \<Rightarrow> 's world \<Rightarrow>
   (app_error + UserResponse) \<times> 's world" where
  "Register uc libs now uuid salt req w =
     (case repo_ExistsByEmail (userRepo uc) (ReqEmail req) (store w) of
        Inl err \<Rightarrow> (Inl ErrInternal, w)
      | Inr exists \<Rightarrow>
     if exists then (Inl ErrEmailAlreadyExists, w)
     else
     (case repo_ExistsByUsername (userRepo uc) (ReqUsername req) (store w) of
        Inl err \<Rightarrow> (Inl ErrInternal, w)
      | Inr exists \<Rightarrow>
     if exists then (Inl ErrUsernameAlreadyExists, w)
     else
     (case Hash (bcrypt_lib libs) (passwordHasher uc) salt (ReqPassword req) of
        Inl err \<Rightarrow> (Inl ErrInternal, w)
      | Inr hashedPassword \<Rightarrow>
     (let user = NewUser now uuid (ReqEmail req) (ReqUsername req) hashedPassword
                   (ReqFullName req) RoleUser
      in case repo_Create (userRepo uc) user (store w) of
           (Some err, s') \<Rightarrow> (Inl ErrInternal, w\<lparr>store := s'\<rparr>)
         | (None, s') \<Rightarrow> (Inr (toUserResponse user), w\<lparr>store := s'\<rparr>)))))"

definition Login ::
  "'s UserUsecase \<Rightarrow> libraries \<Rightarrow> token_draw \<Rightarrow> LoginRequest \<Rightarrow> 's world \<Rightarrow>
   app_error + LoginResponse" where
  "Login uc libs draw req w =
     (case repo_GetByEmail (userRepo uc) (LoginEmail req) (store w) of
        Inl err \<Rightarrow>
          if errors_Is err ErrUserNotFound then Inl ErrInvalidCredentials
          else Inl ErrInternal
      | Inr user \<Rightarrow>
     if \<not> IsActive user then Inl ErrUnauthorized
     else if \<not> IsValid (bcrypt_lib libs) (passwordHasher uc) (Password user) (LoginPassword req)
     then Inl ErrInvalidCredentials
     else
     (case GenerateAccessToken (jwtManager uc) (jwt_enc libs) (access_now draw)
             (access_uuid draw) (ID user) (Email user) (Role user) of
        Inl err \<Rightarrow> Inl ErrInternal
      | Inr accessToken \<Rightarrow>
     (case GenerateRefreshToken (jwtManager uc) (jwt_enc libs) (refresh_now draw)
             (refresh_uuid draw) (ID user) of
        Inl err \<Rightarrow> Inl ErrInternal
      | Inr refreshToken \<Rightarrow>
          Inr \<lparr>RespUser = toUserResponse user, RespAccessToken = accessToken,
               RespRefreshToken = refreshToken, RespTokenType = ''Bearer'', RespExpiresIn = 900\<rparr>)))"

text \<open>\<open>RefreshToken\<close> validates the token at the time \<open>now\<close>.\<close>

definition RefreshToken ::
  "'s UserUsecase \<Rightarrow> libraries \<Rightarrow> time \<Rightarrow> token_draw \<Rightarrow> string \<Rightarrow> 's world \<Rightarrow>
   app_error + RefreshTokenResponse" where
  "RefreshToken uc libs now draw reqRefreshToken w =
     (case ValidateRefreshToken (jwtManager uc) (jwt_dec libs) now reqRefreshToken of
        Inl err \<Rightarrow> Inl ErrInvalidToken
      | Inr userID \<Rightarrow>
     (case repo_GetByID (userRepo uc) userID (store w) of
        Inl err \<Rightarrow>
          if errors_Is err ErrUserNotFound then Inl ErrUnauthorized
          else Inl ErrInternal
      | Inr user \<Rightarrow>
     if \<not> IsActive user then Inl ErrUnauthorized
     else
     (case GenerateAccessToken (jwtManager uc) (jwt_enc libs) (access_now draw)
             (access_uuid draw) (ID user) (Email user) (Role user) of
        Inl err \<Rightarrow> Inl ErrInternal
      | Inr accessToken \<Rightarrow>
     (case GenerateRefreshToken (jwtManager uc) (jwt_enc libs) (refresh_now draw)
             (refresh_uuid draw) (ID user) of
        Inl err \<Rightarrow> Inl ErrInternal
      | Inr refreshToken \<Rightarrow>
          Inr \<lparr>NewAccessToken = accessToken, NewRefreshToken = refreshToken,
               NewTokenType = ''Bearer'', NewExpiresIn = 900\<rparr>))))"

definition cacheKey :: "string \<Rightarrow> string" where
  "cacheKey userID = CacheKeyUserPrefix @ userID"

definition GetProfile ::
  "'s UserUsecase \<Rightarrow> libraries \<Rightarrow> string \<Rightarrow> 's world \<Rightarrow> (app_error + UserResponse) \<times> 's world" where
  "GetProfile uc libs userID w =
     (case repo_GetByID (userRepo uc) userID (store w) of
        Inl err \<Rightarrow>
          if errors_Is err ErrUserNotFound then (Inl ErrUserNotFound, w)
          else (Inl ErrInternal, w)
      | Inr user \<Rightarrow>
          (Inr (toUserResponse user),
           w\<lparr>cache := snd (Redis_Set (redis_marshal libs) (cacheKey userID) user
                              CacheTTLMedium (cache w))\<rparr>))"

definition UpdateProfile ::
  "'s UserUsecase \<Rightarrow> time \<Rightarrow> string \<Rightarrow> string \<Rightarrow> 's world \<Rightarrow> (app_error + UserResponse) \<times> 's world" where
  "UpdateProfile uc now userID reqFullName w =
     (case repo_GetByID (userRepo uc) userID (store w) of
        Inl err \<Rightarrow>
          if errors_Is err ErrUserNotFound then (Inl ErrUserNotFound, w)
          else (Inl ErrInternal, w)
      | Inr user0 \<Rightarrow>
     (let user = User_UpdateProfile now reqFullName user0
      in case repo_Update (userRepo uc) user (store w) of
           (Some err, s') \<Rightarrow> (Inl ErrInternal, w\<lparr>store := s'\<rparr>)
         | (None, s') \<Rightarrow>
             (Inr (toUserResponse user),
              \<lparr>store = s', cache = snd (Redis_Delete (cacheKey userID) (cache w))\<rparr>)))"

definition ChangePassword ::
  "'s UserUsecase \<Rightarrow> libraries \<Rightarrow> time \<Rightarrow> string \<Rightarrow> string \<Rightarrow> ChangePasswordRequest \<Rightarrow> 's world \<Rightarrow>
   app_error option \<times> 's world" where
  "ChangePassword uc libs now salt userID req w =
     (case repo_GetByID (userRepo uc) userID (store w) of
        Inl err \<Rightarrow>
          if errors_Is err ErrUserNotFound then (Some ErrUserNotFound, w)
          else (Some ErrInternal, w)
      | Inr user0 \<Rightarrow>
     if \<not> IsValid (bcrypt_lib libs) (passwordHasher uc) (Password user0) (OldPassword req)
     then (Some ErrInvalidPassword, w)
     else
     (case Hash (bcrypt_lib libs) (passwordHasher uc) salt (NewPassword req) of
        Inl err \<Rightarrow> (Some ErrInternal, w)
      | Inr hashedPassword \<Rightarrow>
     (let user = UpdatePassword now hashedPassword user0
      in case repo_Update (userRepo uc) user (store w) of
           (Some err, s') \<Rightarrow> (Some ErrInternal, w\<lparr>store := s'\<rparr>)
         | (None, s') \<Rightarrow> (None, w\<lparr>store := s'\<rparr>))))"

definition ListUsers ::
  "'s UserUsecase \<Rightarrow> int \<Rightarrow> int \<Rightarrow> string \<Rightarrow> string \<Rightarrow> string \<Rightarrow> 's world \<Rightarrow>
   app_error + (UserResponse list \<times> int)" where
  "ListUsers uc page pageSize search role status w =
     (case repo_List (userRepo uc) page pageSize search role status (store w) of
        Inl err \<Rightarrow> Inl ErrInternal
      | Inr (us, count) \<Rightarrow> Inr (map toUserResponse us, count))"

definition DeleteUser :: "'s UserUsecase \<Rightarrow> string \<Rightarrow> 's world \<Rightarrow> app_error option \<times> 's world" where
  "DeleteUser uc userID w =
     (case repo_Delete (userRepo uc) userID (store w) of
        (Some err, s') \<Rightarrow>
          if errors_Is err ErrUserNotFound then (Some ErrUserNotFound, w\<lparr>store := s'\<rparr>)
          else (Some ErrInternal, w\<lparr>store := s'\<rparr>)
      | (None, s') \<Rightarrow>
          (None, \<lparr>store = s', cache = snd (Redis_Delete (cacheKey userID) (cache w))\<rparr>))"

section \<open>The middleware (internal/delivery/http/middleware)\<close>

text \<open>
  What the middleware touches of a \<open>gin.Context\<close>: the request headers, the keys set
  on the context (all of them strings here), the response written, and whether the
  chain was aborted. A handler is a function on contexts. Both middlewares call
  \<open>c.Next()\<close> as their last statement or not at all, so a handler that returns without
  aborting hands over to the next one, and \<open>run_chain\<close> is the loop of \<open>Next\<close>: it
  stops at the first handler that aborts.
\<close>

record http_response =
  status_code :: nat
  success :: bool
  message :: string

record gin_Context =
  headers :: "string \<rightharpoonup> string"
  keys :: "string \<rightharpoonup> string"
  written :: "http_response option"
  aborted :: bool

type_synonym HandlerFunc = "gin_Context \<Rightarrow> gin_Context"

fun run_chain :: "HandlerFunc list \<Rightarrow> gin_Context \<Rightarrow> gin_Context" where
  "run_chain [] c = c"
| "run_chain (h # hs) c = (let c' = h c in if aborted c' then c' else run_chain hs c')"

definition GetHeader :: "gin_Context \<Rightarrow> string \<Rightarrow> string" where
  "GetHeader c key = (case headers c key of None \<Rightarrow> [] | Some v \<Rightarrow> v)"

definition GetString :: "gin_Context \<Rightarrow> string \<Rightarrow> string" where
  "GetString c key = (case keys c key of None \<Rightarrow> [] | Some v \<Rightarrow> v)"

definition Set :: "string \<Rightarrow> string \<Rightarrow> gin_Context \<Rightarrow> gin_Context" where
  "Set key val c = c\<lparr>keys := (keys c)(key \<mapsto> val)\<rparr>"

definition Abort :: "gin_Context \<Rightarrow> gin_Context" where
  "Abort c = c\<lparr>aborted := True\<rparr>"

definition StatusUnauthorized :: nat where "StatusUnauthorized = 401"
definition StatusForbidden :: nat where "StatusForbidden = 403"

definition response_Error :: "nat \<Rightarrow> string \<Rightarrow> gin_Context \<Rightarrow> gin_Context" where
  "response_Error statusCode msg c =
     c\<lparr>written := Some \<lparr>status_code = statusCode, success = False, message = msg\<rparr>\<rparr>"

definition Unauthorized :: "string \<Rightarrow> gin_Context \<Rightarrow> gin_Context" where
  "Unauthorized msg c = response_Error StatusUnauthorized msg c"

definition Forbidden :: "string \<Rightarrow> gin_Context \<Rightarrow> gin_Context" where
  "Forbidden msg c = response_Error StatusForbidden msg c"

text \<open>\<open>strings.SplitN(s, " ", 2)\<close>: cut at the first space, if there is one.\<close>

definition SplitN2 :: "string \<Rightarrow> string list" where
  "SplitN2 s =
     (if CHR '' '' \<in> set s
      then [takeWhile (\<lambda>ch. ch \<noteq> CHR '' '') s, tl (dropWhile (\<lambda>ch. ch \<noteq> CHR '' '') s)]
      else [s])"

definition AuthMiddleware :: "Manager \<Rightarrow> (string \<Rightarrow> jws option) \<Rightarrow> time \<Rightarrow> HandlerFunc" where
  "AuthMiddleware manager dec now c =
     (let authHeader = GetHeader c HeaderAuthorization
      in if authHeader = [] then Abort (Unauthorized ''Authorization header is required'' c)
         else
           let parts = SplitN2 authHeader
           in if length parts \<noteq> 2 \<or> hd parts \<noteq> ''Bearer''
              then Abort (Unauthorized ''Invalid authorization header format'' c)
              else
                (case ValidateAccessToken manager dec now (parts ! 1) of
                   Inl err \<Rightarrow> Abort (Unauthorized ''Invalid or expired token'' c)
                 | Inr claims \<Rightarrow>
                     Set ContextKeyUserRole (ClaimRole claims)
                       (Set ContextKeyUserEmail (ClaimEmail claims)
                          (Set ContextKeyUserID (ClaimUserID claims) c))))"

definition RequireRole :: "string list \<Rightarrow> HandlerFunc" where
  "RequireRole roles c =
     (let userRole = GetString c ContextKeyUserRole
      in if userRole = [] then Abort (Unauthorized ''Unauthorized'' c)
         else
           let hasRole = (userRole \<in> set roles)
           in if \<not> hasRole then Abort (Forbidden ''Insufficient permissions'' c)
              else c)"

text \<open>
  The handler answered with the status code given, as an error, and aborted the chain.
\<close>

definition rejected_with :: "nat \<Rightarrow> gin_Context \<Rightarrow> bool" where
  "rejected_with code c =
     (aborted c \<and>
      (case written c of None \<Rightarrow> False
       | Some resp \<Rightarrow> status_code resp = code \<and> success resp = False))"

section \<open>Concrete instances\<close>

text \<open>
  Small instances on which the model is evaluated: a codec that knows a table of tokens,
  a stand-in for bcrypt, a manager, a database with three users, and the repository the
  tests mock, which answers every lookup with a given user.
\<close>

definition table_enc :: "(string \<times> jws) list \<Rightarrow> jws \<Rightarrow> string" where
  "table_enc tbl j = (case find (\<lambda>e. snd e = j) tbl of None \<Rightarrow> [] | Some e \<Rightarrow> fst e)"

definition table_dec :: "(string \<times> jws) list \<Rightarrow> string \<Rightarrow> jws option" where
  "table_dec tbl s = map_of tbl s"

definition toy_bcrypt :: bcrypt where
  "toy_bcrypt =
     \<lparr>GenerateFromPassword = (\<lambda>pw c salt. Some (salt @ ''$'' @ pw)),
      CompareHashAndPassword = (\<lambda>h pw. dropWhile (\<lambda>ch. ch \<noteq> CHR ''$'') h = ''$'' @ pw)\<rparr>"

definition demo_manager :: Manager where
  "demo_manager = NewManager ''secret'' (900 * second) (604800 * second)"

definition demo_access_jws :: jws where
  "demo_access_jws = access_jws demo_manager 0 ''jti-1'' ''u1'' ''a@x.com'' ''user''"

definition demo_refresh_jws :: jws where
  "demo_refresh_jws = refresh_jws demo_manager 0 ''jti-2'' ''u1''"

definition demo_draw :: token_draw where
  "demo_draw =
     \<lparr>access_now = 5 * second, access_uuid = ''jti-3'',
      refresh_now = 5 * second, refresh_uuid = ''jti-4''\<rparr>"

definition demo_table :: "(string \<times> jws) list" where
  "demo_table =
     [(''access-1'', demo_access_jws),
      (''refresh-1'', demo_refresh_jws),
      (''access-2'', access_jws demo_manager (5 * second) ''jti-3'' ''u1'' ''a@x.com'' ''user''),
      (''refresh-2'', refresh_jws demo_manager (5 * second) ''jti-4'' ''u1''),
      (''other-key'', SignedString ''HS256'' ''another secret''
         (marshal_Claims (access_claims demo_manager 0 ''jti-1'' ''u1'' ''a@x.com'' ''user''))),
      (''rs256'', \<lparr>alg = ''RS256'',
         payload = marshal_Claims (access_claims demo_manager 0 ''jti-1'' ''u1'' ''a@x.com'' ''user''),
         sig = Garbage ''rsa''\<rparr>)]"

definition demo_libs :: libraries where
  "demo_libs =
     \<lparr>jwt_enc = table_enc demo_table, jwt_dec = table_dec demo_table,
      bcrypt_lib = toy_bcrypt, redis_marshal = (\<lambda>u. Some (FullName u))\<rparr>"

definition alice :: User where
  "alice = NewUser 0 ''u1'' ''a@x.com'' ''alice'' ''salt$Abcdef1!'' ''Alice A'' ''user''"

text \<open>A banned user, a soft-deleted user, and the database that holds the three.\<close>

definition bob :: User where
  "bob = ChangeStatus second ''banned''
           (NewUser 0 ''u2'' ''b@x.com'' ''bob'' ''salt$Abcdef1!'' ''Bob B'' ''user'')"

definition carol :: User where
  "carol = MarkAsDeleted (2 * second)
             (NewUser 0 ''u3'' ''c@x.com'' ''carol'' ''salt$Abcdef1!'' ''Carol C'' ''user'')"

definition demo_db :: pg_db where
  "demo_db = \<lparr>users = [alice, bob, carol], db_now = 10 * second, db_up = True\<rparr>"

definition demo_uc :: "pg_db UserUsecase" where
  "demo_uc =
     \<lparr>userRepo = NewPostgresUserRepository (\<lambda>v p. False),
      passwordHasher = NewPasswordHasher 10, jwtManager = demo_manager\<rparr>"

definition demo_world :: "pg_db world" where
  "demo_world = \<lparr>store = demo_db, cache = \<lparr>entries = Map.empty, redis_up = True\<rparr>\<rparr>"

definition request_with :: "string \<Rightarrow> gin_Context" where
  "request_with authHeader =
     \<lparr>headers = [HeaderAuthorization \<mapsto> authHeader], keys = Map.empty,
      written = None, aborted = False\<rparr>"

definition request_without_header :: gin_Context where
  "request_without_header =
     \<lparr>headers = Map.empty, keys = Map.empty, written = None, aborted = False\<rparr>"

text \<open>A handler that answers 200; it stands for the handlers behind the middleware.\<close>

definition ok_handler :: HandlerFunc where
  "ok_handler c = c\<lparr>written := Some \<lparr>status_code = 200, success = True, message = ''ok''\<rparr>\<rparr>"

text \<open>
  The mock of the tests: every lookup returns the user given, every write succeeds and
  changes nothing.
\<close>

definition MockUserRepository :: "User \<Rightarrow> unit UserRepository" where
  "MockUserRepository user =
     \<lparr>repo_Create = (\<lambda>u s. (None, s)),
      repo_GetByID = (\<lambda>i s. Inr user),
      repo_GetByEmail = (\<lambda>e s. Inr user),
      repo_GetByUsername = (\<lambda>n s. Inr user),
      repo_Update = (\<lambda>u s. (None, s)),
      repo_Delete = (\<lambda>i s. (None, s)),
      repo_List = (\<lambda>p ps se r st s. Inr ([user], 1)),
      repo_ExistsByEmail = (\<lambda>e s. Inr False),
      repo_ExistsByUsername = (\<lambda>n s. Inr False)\<rparr>"

definition mock_uc :: "User \<Rightarrow> unit UserUsecase" where
  "mock_uc user =
     \<lparr>userRepo = MockUserRepository user,
      passwordHasher = NewPasswordHasher 10, jwtManager = demo_manager\<rparr>"

text \<open>
  Two worlds whose cache holds an entry under the key of user \<open>u1\<close>: in the first the
  database does not answer, in the second the cached value is not the stored one.
\<close>

definition cached_world :: "pg_db world" where
  "cached_world =
     \<lparr>store = demo_db\<lparr>db_up := False\<rparr>,
      cache = \<lparr>entries = [cacheKey ''u1'' \<mapsto> ''Alice A''], redis_up = True\<rparr>\<rparr>"

definition stale_world :: "pg_db world" where
  "stale_world =
     \<lparr>store = demo_db,
      cache = \<lparr>entries = [cacheKey ''u1'' \<mapsto> ''Old Name''], redis_up = True\<rparr>\<rparr>"

text \<open>A registration with the email of the soft-deleted user.\<close>

definition carol_again :: RegisterRequest where
  "carol_again =
     \<lparr>ReqEmail = ''c@x.com'', ReqUsername = ''carol2'', ReqPassword = ''Abcdef1!'',
      ReqFullName = ''Carol C''\<rparr>"

text \<open>A record that reads \<open>active\<close> and carries a deletion time.\<close>

definition ghost :: User where
  "ghost = alice\<lparr>DeletedAt := Some second\<rparr>"

definition mock_world :: "unit world" where
  "mock_world = \<lparr>store = (), cache = \<lparr>entries = Map.empty, redis_up = True\<rparr>\<rparr>"

section \<open>Decoding what the manager marshals\<close>

lemma json_get_append:
  "json_get (xs @ ys) k = (case json_get ys k of None \<Rightarrow> json_get xs k | Some v \<Rightarrow> Some v)"
  by (simp add: json_get_def map_add_def split: option.split)

lemma json_get_Nil: "json_get [] k = None"
  by (simp add: json_get_def)

lemma json_get_single: "json_get [(k', v)] k = (if k = k' then Some v else None)"
  by (simp add: json_get_def)

lemma json_get_Cons:
  "json_get ((k', v) # xs) k =
     (case json_get xs k of None \<Rightarrow> (if k = k' then Some v else None) | Some w \<Rightarrow> Some w)"
  using json_get_append [of "[(k', v)]" xs k] by (simp add: json_get_single split: option.split)

lemma marshal_RegisteredClaims_fields:
  "dec_string (json_get (marshal_RegisteredClaims rc) ''iss'') = Some (Issuer rc)"
  "dec_string (json_get (marshal_RegisteredClaims rc) ''sub'') = Some (Subject rc)"
  "dec_strings (json_get (marshal_RegisteredClaims rc) ''aud'') = Some (Audience rc)"
  "dec_date (json_get (marshal_RegisteredClaims rc) ''exp'') = Some (ExpiresAt rc)"
  "dec_date (json_get (marshal_RegisteredClaims rc) ''nbf'') = Some (NotBefore rc)"
  "dec_date (json_get (marshal_RegisteredClaims rc) ''iat'') = Some (IssuedAt rc)"
  "dec_string (json_get (marshal_RegisteredClaims rc) ''jti'') = Some (TokenID rc)"
  by (simp_all add: marshal_RegisteredClaims_def json_get_append json_get_Nil json_get_single
      split: option.split)

lemma marshal_RegisteredClaims_other:
  "json_get (marshal_RegisteredClaims rc) ''user_id'' = None"
  "json_get (marshal_RegisteredClaims rc) ''email'' = None"
  "json_get (marshal_RegisteredClaims rc) ''role'' = None"
  by (simp_all add: marshal_RegisteredClaims_def json_get_append json_get_Nil json_get_single
      split: option.split)

lemma decode_marshal_RegisteredClaims:
  "decode_RegisteredClaims (marshal_RegisteredClaims rc) = Some (RegisteredClaims.truncate rc)"
  by (simp add: decode_RegisteredClaims_def marshal_RegisteredClaims_fields
      RegisteredClaims.truncate_def)

text \<open>The members \<open>user_id\<close>, \<open>email\<close> and \<open>role\<close> are skipped by the registered claims.\<close>

lemma json_get_marshal_Claims:
  "k \<notin> {''user_id'', ''email'', ''role''} \<Longrightarrow>
   json_get (marshal_Claims c) k = json_get (marshal_RegisteredClaims c) k"
  by (simp add: marshal_Claims_def json_get_append json_get_Cons json_get_Nil split: option.split)

lemma decode_RegisteredClaims_marshal_Claims:
  "decode_RegisteredClaims (marshal_Claims c) = Some (RegisteredClaims.truncate c)"
  by (simp add: decode_RegisteredClaims_def json_get_marshal_Claims
      marshal_RegisteredClaims_fields RegisteredClaims.truncate_def)

lemma marshal_Claims_fields:
  "dec_string (json_get (marshal_Claims c) ''user_id'') = Some (ClaimUserID c)"
  "dec_string (json_get (marshal_Claims c) ''email'') = Some (ClaimEmail c)"
  "dec_string (json_get (marshal_Claims c) ''role'') = Some (ClaimRole c)"
  by (simp_all add: marshal_Claims_def json_get_append marshal_RegisteredClaims_other
      json_get_Cons json_get_Nil)

lemma decode_Claims_marshal_Claims: "decode_Claims (marshal_Claims c) = Some c"
  by (simp add: decode_Claims_def decode_RegisteredClaims_marshal_Claims marshal_Claims_fields
      RegisteredClaims.truncate_def)

text \<open>Parsing a token that was signed with HS256 under the manager's key.\<close>

lemma ParseWithClaims_signed:
  assumes "dec tok = Some (SignedString ''HS256'' (secretKey m) obj)"
    and "decode_claims obj = Some claims"
  shows "ParseWithClaims dec decode_claims validate (keyFunc m) tok =
           (case validate claims of
              [] \<Rightarrow> Inr \<lparr>TokenClaims = claims, Valid = True\<rparr>
            | e # es \<Rightarrow> Inl (ErrTokenInvalidClaims (e # es)))"
  using assms by (simp add: ParseWithClaims_def SignedString_def GetSigningMethod_def hmac_algs_def)

lemma Validate_access_claims:
  "Validate now (access_claims m t0 uuid userID email role) =
     (if now < (t0 + accessTokenDuration m) div second * second then [] else [ErrTokenExpired]) @
     (if now < t0 div second * second then [ErrTokenNotValidYet] else [])"
  by (simp add: Validate_def access_claims_def NewNumericDate_def)

lemma Validate_truncate: "Validate now (RegisteredClaims.truncate c) = Validate now c"
  by (simp add: Validate_def RegisteredClaims.truncate_def)

lemma second_floor: "t div second * second \<le> t"
  by (simp add: second_def)

lemma ValidateRespRefreshTokenaccess_token:
  assumes "dec tok = Some (access_jws m t0 uuid userID email role)"
    and "t0 \<le> now" and "now < (t0 + accessTokenDuration m) div second * second"
  shows "ValidateRefreshToken m dec now tok = Inr userID"
proof -
  have "t0 div second * second \<le> now"
    using second_floor [of t0] assms(2) by linarith
  then have "Validate now (RegisteredClaims.truncate (access_claims m t0 uuid userID email role)) = []"
    using assms(3) by (simp add: Validate_truncate Validate_access_claims)
  moreover have "ParseWithClaims dec decode_RegisteredClaims (Validate now) (keyFunc m) tok =
      (case Validate now (RegisteredClaims.truncate (access_claims m t0 uuid userID email role)) of
         [] \<Rightarrow> Inr \<lparr>TokenClaims = RegisteredClaims.truncate (access_claims m t0 uuid userID email role),
                     Valid = True\<rparr>
       | e # es \<Rightarrow> Inl (ErrTokenInvalidClaims (e # es)))"
    using assms(1) [unfolded access_jws_def] decode_RegisteredClaims_marshal_Claims
    by (rule ParseWithClaims_signed)
  ultimately show ?thesis
    by (simp add: ValidateRefreshToken_def RegisteredClaims.truncate_def access_claims_def)
qed

text \<open>Once the access token has expired, the refresh validation reports the expiry.\<close>

lemma ValidateRespRefreshTokenaccess_token_expired:
  assumes "dec tok = Some (access_jws m t0 uuid userID email role)"
    and "(t0 + accessTokenDuration m) div second * second \<le> now"
  shows "ValidateRefreshToken m dec now tok = Inl jwt_ErrExpiredToken"
proof -
  have "ParseWithClaims dec decode_RegisteredClaims (Validate now) (keyFunc m) tok =
      (case Validate now (RegisteredClaims.truncate (access_claims m t0 uuid userID email role)) of
         [] \<Rightarrow> Inr \<lparr>TokenClaims = RegisteredClaims.truncate (access_claims m t0 uuid userID email role),
                     Valid = True\<rparr>
       | e # es \<Rightarrow> Inl (ErrTokenInvalidClaims (e # es)))"
    using assms(1) [unfolded access_jws_def] decode_RegisteredClaims_marshal_Claims
    by (rule ParseWithClaims_signed)
  then show ?thesis
    using assms(2) by (simp add: ValidateRefreshToken_def Validate_truncate Validate_access_claims)
qed

section \<open>Access tokens in the refresh flow\<close>

text \<open>
  Claim C1, as amended. The claim says that the refresh flow rejects every access token
  with the invalid-token error. The manager gives the two kinds of token no mark that
  tells them apart: an access token carries the registered claims of a refresh token
  and three members more, which decoding into the registered claims skips. So, for
  every token that \<open>GenerateAccessToken\<close> produced at time \<open>t0\<close>, at every time from
  \<open>t0\<close> up to the token's expiry \<open>ValidateRefreshToken\<close> returns the token's user id
  without error, and \<open>RefreshToken\<close> returns a new pair of tokens when the repository
  finds that user and the user is active.
\<close>

theorem access_token_accepted_by_refresh_flow:
  assumes "GenerateAccessToken (jwtManager uc) (jwt_enc libs) t0 uuid userID email role = Inr tok"
    and "jwt_dec libs tok = Some (access_jws (jwtManager uc) t0 uuid userID email role)"
    and "t0 \<le> now"
    and "now < (t0 + accessTokenDuration (jwtManager uc)) div second * second"
    and "repo_GetByID (userRepo uc) userID (store w) = Inr user"
    and "IsActive user"
  shows "ValidateRefreshToken (jwtManager uc) (jwt_dec libs) now tok = Inr userID \<and>
         RefreshToken uc libs now draw tok w =
           Inr \<lparr>NewAccessToken =
                  jwt_enc libs (access_jws (jwtManager uc) (access_now draw) (access_uuid draw)
                                  (ID user) (Email user) (Role user)),
                NewRefreshToken =
                  jwt_enc libs (refresh_jws (jwtManager uc) (refresh_now draw) (refresh_uuid draw)
                                  (ID user)),
                NewTokenType = ''Bearer'', NewExpiresIn = 900\<rparr>"
proof -
  have v: "ValidateRefreshToken (jwtManager uc) (jwt_dec libs) now tok = Inr userID"
    using assms(2) assms(3) assms(4) by (rule ValidateRespRefreshTokenaccess_token)
  show ?thesis
    using v assms(5) assms(6)
    by (simp add: RefreshToken_def GenerateAccessToken_def GenerateRefreshToken_def)
qed

theorem access_token_accepted_by_refresh_flow_witness:
  "ValidateRefreshToken (jwtManager demo_uc) (jwt_dec demo_libs) (5 * second) ''access-1'' = Inr ''u1'' \<and>
   RefreshToken demo_uc demo_libs (5 * second) demo_draw ''access-1'' demo_world =
     Inr \<lparr>NewAccessToken = ''access-2'', NewRefreshToken = ''refresh-2'',
          NewTokenType = ''Bearer'', NewExpiresIn = 900\<rparr>"
proof -
  have gen: "GenerateAccessToken (jwtManager demo_uc) (jwt_enc demo_libs) 0 ''jti-1'' ''u1''
               ''a@x.com'' ''user'' = Inr ''access-1''"
    by code_simp
  have dec: "jwt_dec demo_libs ''access-1'' =
               Some (access_jws (jwtManager demo_uc) 0 ''jti-1'' ''u1'' ''a@x.com'' ''user'')"
    by code_simp
  have t1: "(0::int) \<le> 5 * second"
    by code_simp
  have t2: "5 * second < (0 + accessTokenDuration (jwtManager demo_uc)) div second * second"
    by code_simp
  have get: "repo_GetByID (userRepo demo_uc) ''u1'' (store demo_world) = Inr alice"
    by code_simp
  have act: "IsActive alice"
    by code_simp
  have e1: "jwt_enc demo_libs (access_jws (jwtManager demo_uc) (access_now demo_draw)
              (access_uuid demo_draw) (ID alice) (Email alice) (Role alice)) = ''access-2''"
    by code_simp
  have e2: "jwt_enc demo_libs (refresh_jws (jwtManager demo_uc) (refresh_now demo_draw)
              (refresh_uuid demo_draw) (ID alice)) = ''refresh-2''"
    by code_simp
  show ?thesis
    using access_token_accepted_by_refresh_flow [OF gen dec t1 t2 get act, of demo_draw]
    by (simp only: e1 e2)
qed

text \<open>
  The claim as stated fails: the access token issued to user \<open>u1\<close> at time 0, handed to
  the refresh flow five seconds later, is accepted and exchanged for a new pair.
\<close>

theorem refresh_rejects_access_token_counterexample:
  "GenerateAccessToken demo_manager (jwt_enc demo_libs) 0 ''jti-1'' ''u1'' ''a@x.com'' ''user''
     = Inr ''access-1'' \<and>
   ValidateRefreshToken demo_manager (jwt_dec demo_libs) (5 * second) ''access-1'' = Inr ''u1'' \<and>
   RefreshToken demo_uc demo_libs (5 * second) demo_draw ''access-1'' demo_world \<noteq>
     Inl ErrInvalidToken"
  by code_simp

section \<open>The failures of access-token validation\<close>

lemma ValidateAccessToken_cases:
  "ValidateAccessToken m dec now tok =
     (case dec tok of
        None \<Rightarrow> Inl (jwt_ErrInvalidToken (Some ErrTokenMalformed))
      | Some t \<Rightarrow>
     (case decode_Claims (payload t) of
        None \<Rightarrow> Inl (jwt_ErrInvalidToken (Some ErrTokenMalformed))
      | Some c \<Rightarrow>
          if alg t \<notin> set hmac_algs then Inl (jwt_ErrInvalidToken (Some ErrTokenUnverifiable))
          else if sig t \<noteq> HMAC_Sig (alg t) (secretKey m) (payload t)
               then Inl (jwt_ErrInvalidToken (Some ErrTokenSignatureInvalid))
          else if Validate now c = [] then Inr c
          else if ErrTokenExpired \<in> set (Validate now c) then Inl jwt_ErrExpiredToken
          else Inl (jwt_ErrInvalidToken (Some (ErrTokenInvalidClaims (Validate now c))))))"
  by (auto simp: ValidateAccessToken_def ParseWithClaims_def GetSigningMethod_def
      split: option.splits list.splits sum.splits)

lemma Validate_expired:
  "ExpiresAt c = Some e \<Longrightarrow> e * second \<le> now \<Longrightarrow> ErrTokenExpired \<in> set (Validate now c)"
  by (simp add: Validate_def)

text \<open>
  Claim C4. Let \<open>r\<close> be the result of \<open>ValidateAccessToken\<close> on a token string. A
  string that does not decode, a token whose algorithm is not of the HMAC family, a
  token whose signature is not the one the manager's secret gives (a token signed with
  another secret among them) and a token whose claims do not decode all give the
  invalid-token error. A token signed under the manager's secret whose expiry has passed
  gives the expired-token error. A token signed under the manager's secret whose claims
  the validator accepts gives its typed claims, and only such a token does. Every result
  is one of the three, and no error is of both kinds.
\<close>

theorem ValidateAccessToken_error_kinds:
  assumes "r = ValidateAccessToken m dec now tok"
  shows
    "(dec tok = None \<longrightarrow> is_invalid_token r) \<and>
     (dec tok = Some t \<and> alg t \<notin> set hmac_algs \<longrightarrow> is_invalid_token r) \<and>
     (dec tok = Some t \<and> sig t \<noteq> HMAC_Sig (alg t) (secretKey m) (payload t) \<longrightarrow>
        is_invalid_token r) \<and>
     (dec tok = Some t \<and> decode_Claims (payload t) = None \<longrightarrow> is_invalid_token r) \<and>
     (dec tok = Some t \<and> signed_by m t \<and> decode_Claims (payload t) = Some c \<and>
        ExpiresAt c = Some e \<and> e * second \<le> now \<longrightarrow> r = Inl jwt_ErrExpiredToken) \<and>
     (dec tok = Some t \<and> signed_by m t \<and> decode_Claims (payload t) = Some c \<and>
        Validate now c = [] \<longrightarrow> r = Inr c) \<and>
     (r = Inr c \<longrightarrow>
        (\<exists>t'. dec tok = Some t' \<and> signed_by m t' \<and> decode_Claims (payload t') = Some c \<and>
              Validate now c = [])) \<and>
     (is_invalid_token r \<or> is_expired_token r \<or> (\<exists>claims. r = Inr claims)) \<and>
     \<not> (is_invalid_token r \<and> is_expired_token r)"
  unfolding assms ValidateAccessToken_cases
  by (auto simp: is_invalid_token_def is_expired_token_def signed_by_def
      dest: Validate_expired split: option.splits)

theorem ValidateAccessToken_error_kinds_witness:
  "is_invalid_token (ValidateAccessToken demo_manager (jwt_dec demo_libs) (5 * second) ''garbage'') \<and>
   is_invalid_token (ValidateAccessToken demo_manager (jwt_dec demo_libs) (5 * second) ''rs256'') \<and>
   is_invalid_token (ValidateAccessToken demo_manager (jwt_dec demo_libs) (5 * second) ''other-key'') \<and>
   ValidateAccessToken demo_manager (jwt_dec demo_libs) (1000 * second) ''access-1'' =
     Inl jwt_ErrExpiredToken \<and>
   ValidateAccessToken demo_manager (jwt_dec demo_libs) (5 * second) ''access-1'' =
     Inr (access_claims demo_manager 0 ''jti-1'' ''u1'' ''a@x.com'' ''user'')"
proof -
  let ?dec = "jwt_dec demo_libs"
  let ?c = "access_claims demo_manager 0 ''jti-1'' ''u1'' ''a@x.com'' ''user''"
  have d0: "?dec ''garbage'' = None"
    by code_simp
  have d1: "?dec ''rs256'' = Some \<lparr>alg = ''RS256'', payload = marshal_Claims ?c,
              sig = Garbage ''rsa''\<rparr>"
    by code_simp
  have a1: "alg \<lparr>alg = ''RS256'', payload = marshal_Claims ?c, sig = Garbage ''rsa''\<rparr>
              \<notin> set hmac_algs"
    by code_simp
  have d2: "?dec ''other-key'' = Some (SignedString ''HS256'' ''another secret'' (marshal_Claims ?c))"
    by code_simp
  have s2: "sig (SignedString ''HS256'' ''another secret'' (marshal_Claims ?c)) \<noteq>
              HMAC_Sig (alg (SignedString ''HS256'' ''another secret'' (marshal_Claims ?c)))
                (secretKey demo_manager)
                (payload (SignedString ''HS256'' ''another secret'' (marshal_Claims ?c)))"
    by code_simp
  have d3: "?dec ''access-1'' = Some demo_access_jws"
    by code_simp
  have s3: "signed_by demo_manager demo_access_jws"
    by code_simp
  have c3: "decode_Claims (payload demo_access_jws) = Some ?c"
    by code_simp
  have e3: "ExpiresAt ?c = Some 900"
    by code_simp
  have l3: "900 * second \<le> 1000 * second"
    by code_simp
  have v3: "Validate (5 * second) ?c = []"
    by code_simp
  have "is_invalid_token (ValidateAccessToken demo_manager ?dec (5 * second) ''garbage'')"
    using ValidateAccessToken_error_kinds [OF refl, of ?dec "''garbage''"] d0 by blast
  moreover
  have "is_invalid_token (ValidateAccessToken demo_manager ?dec (5 * second) ''rs256'')"
    using ValidateAccessToken_error_kinds [OF refl, of ?dec "''rs256''"] d1 a1 by blast
  moreover
  have "is_invalid_token (ValidateAccessToken demo_manager ?dec (5 * second) ''other-key'')"
    using ValidateAccessToken_error_kinds [OF refl, of ?dec "''other-key''"] d2 s2 by blast
  moreover
  have "ValidateAccessToken demo_manager ?dec (1000 * second) ''access-1'' = Inl jwt_ErrExpiredToken"
    using ValidateAccessToken_error_kinds [OF refl, of ?dec "''access-1''"] d3 s3 c3 e3 l3
    by blast
  moreover
  have "ValidateAccessToken demo_manager ?dec (5 * second) ''access-1'' = Inr ?c"
    using ValidateAccessToken_error_kinds [OF refl, of ?dec "''access-1''"] d3 s3 c3 v3
    by blast
  ultimately show ?thesis
    by blast
qed

section \<open>The authentication middleware\<close>

lemma SplitN2_Bearer: "SplitN2 (''Bearer '' @ tok) = [''Bearer'', tok]"
  by (simp add: SplitN2_def)

lemma take_Bearer: "take 7 (''Bearer '' @ x) = ''Bearer ''"
  by simp

lemma SplitN2_two:
  assumes "length (SplitN2 h) = 2" and "hd (SplitN2 h) = ''Bearer''"
  shows "h = ''Bearer '' @ (SplitN2 h ! 1)"
proof -
  let ?sp = "\<lambda>ch. ch \<noteq> CHR '' ''"
  have mem: "CHR '' '' \<in> set h"
    using assms(1) by (auto simp: SplitN2_def split: if_splits)
  then have tw: "takeWhile ?sp h = ''Bearer''"
    using assms(2) by (simp add: SplitN2_def)
  have ne: "dropWhile ?sp h \<noteq> []"
    using mem by auto
  then have "hd (dropWhile ?sp h) = CHR '' ''"
    using hd_dropWhile [of ?sp h] by simp
  then have "dropWhile ?sp h = CHR '' '' # tl (dropWhile ?sp h)"
    using ne by (cases "dropWhile ?sp h") auto
  then have "takeWhile ?sp h @ dropWhile ?sp h = ''Bearer'' @ CHR '' '' # tl (dropWhile ?sp h)"
    using tw by simp
  then have "h = ''Bearer'' @ CHR '' '' # tl (dropWhile ?sp h)"
    by (simp only: takeWhile_dropWhile_id)
  then show ?thesis
    using mem by (simp add: SplitN2_def)
qed

lemma Bearer_split:
  assumes "take 7 h = ''Bearer ''"
  shows "SplitN2 h = [''Bearer'', drop 7 h]"
proof -
  have "h = ''Bearer '' @ drop 7 h"
    using append_take_drop_id [of 7 h] assms by simp
  then have "SplitN2 h = SplitN2 (''Bearer '' @ drop 7 h)"
    by simp
  then show ?thesis
    by (simp only: SplitN2_Bearer)
qed

text \<open>
  The two tests of the middleware on the parts hold exactly when the header starts with
  \<open>Bearer\<close> and a space; the token is then the rest of the header.
\<close>

lemma Bearer_form:
  "(length (SplitN2 h) \<noteq> 2 \<or> hd (SplitN2 h) \<noteq> ''Bearer'') \<longleftrightarrow> take 7 h \<noteq> ''Bearer ''"
proof (cases "take 7 h = ''Bearer ''")
  case True
  then show ?thesis
    by (simp add: Bearer_split)
next
  case False
  have "length (SplitN2 h) \<noteq> 2 \<or> hd (SplitN2 h) \<noteq> ''Bearer''"
  proof (rule ccontr)
    assume "\<not> (length (SplitN2 h) \<noteq> 2 \<or> hd (SplitN2 h) \<noteq> ''Bearer'')"
    then have "h = ''Bearer '' @ (SplitN2 h ! 1)"
      using SplitN2_two by blast
    then have "take 7 h = take 7 (''Bearer '' @ (SplitN2 h ! 1))"
      by simp
    then have "take 7 h = ''Bearer ''"
      by (simp only: take_Bearer)
    with False show False by simp
  qed
  with False show ?thesis by simp
qed

lemma AuthMiddleware_cases:
  "AuthMiddleware m dec now c =
     (if GetHeader c HeaderAuthorization = []
      then Abort (Unauthorized ''Authorization header is required'' c)
      else if take 7 (GetHeader c HeaderAuthorization) \<noteq> ''Bearer ''
      then Abort (Unauthorized ''Invalid authorization header format'' c)
      else (case ValidateAccessToken m dec now (drop 7 (GetHeader c HeaderAuthorization)) of
              Inl err \<Rightarrow> Abort (Unauthorized ''Invalid or expired token'' c)
            | Inr claims \<Rightarrow>
                Set ContextKeyUserRole (ClaimRole claims)
                  (Set ContextKeyUserEmail (ClaimEmail claims)
                     (Set ContextKeyUserID (ClaimUserID claims) c))))"
proof (cases "take 7 (GetHeader c HeaderAuthorization) = ''Bearer ''")
  case True
  then show ?thesis
    by (simp add: AuthMiddleware_def Let_def Bearer_split)
next
  case False
  then show ?thesis
    using Bearer_form [of "GetHeader c HeaderAuthorization"]
    by (simp add: AuthMiddleware_def Let_def)
qed

lemma rejected_Abort_Unauthorized:
  "rejected_with StatusUnauthorized (Abort (Unauthorized msg c))"
  "keys (Abort (Unauthorized msg c)) = keys c"
  by (simp_all add: rejected_with_def Abort_def Unauthorized_def response_Error_def)

lemma run_chain_aborted: "aborted (h c) \<Longrightarrow> run_chain (h # hs) c = h c"
  by (simp add: Let_def)

lemma run_chain_next: "\<not> aborted (h c) \<Longrightarrow> run_chain (h # hs) c = run_chain hs (h c)"
  by (simp add: Let_def)

lemma context_keys:
  "ContextKeyUserID \<noteq> ContextKeyUserEmail" "ContextKeyUserID \<noteq> ContextKeyUserRole"
  "ContextKeyUserEmail \<noteq> ContextKeyUserRole"
  by (simp_all add: ContextKeyUserID_def ContextKeyUserEmail_def ContextKeyUserRole_def)

text \<open>
  Claim C5. Let \<open>h\<close> be the value of the Authorization header of a request (empty when
  the header is absent) and \<open>c'\<close> the context the middleware leaves. If \<open>h\<close> is empty,
  or does not start with \<open>Bearer\<close> and a space, or the rest of \<open>h\<close> fails
  \<open>ValidateAccessToken\<close>, the middleware answers 401 and aborts, and sets no key; a
  chain that the middleware aborted ends with the middleware, whatever handlers follow.
  If the rest of \<open>h\<close> validates, the context holds the user id, the email and the role
  of the claims, nothing is written or aborted by the middleware, and the chain goes on
  with the handlers that follow.
\<close>

theorem AuthMiddleware_gate:
  assumes "c' = AuthMiddleware m dec now c" and "h = GetHeader c HeaderAuthorization"
  shows
    "(h = [] \<longrightarrow> rejected_with StatusUnauthorized c' \<and> keys c' = keys c) \<and>
     (take 7 h \<noteq> ''Bearer '' \<longrightarrow> rejected_with StatusUnauthorized c' \<and> keys c' = keys c) \<and>
     (take 7 h = ''Bearer '' \<and> ValidateAccessToken m dec now (drop 7 h) = Inl err \<longrightarrow>
        rejected_with StatusUnauthorized c' \<and> keys c' = keys c) \<and>
     (aborted c' \<longrightarrow> run_chain (AuthMiddleware m dec now # hs) c = c') \<and>
     (take 7 h = ''Bearer '' \<and> ValidateAccessToken m dec now (drop 7 h) = Inr claims \<longrightarrow>
        GetString c' ContextKeyUserID = ClaimUserID claims \<and>
        GetString c' ContextKeyUserEmail = ClaimEmail claims \<and>
        GetString c' ContextKeyUserRole = ClaimRole claims \<and>
        written c' = written c \<and> aborted c' = aborted c \<and>
        (\<not> aborted c \<longrightarrow> run_chain (AuthMiddleware m dec now # hs) c = run_chain hs c'))"
proof -
  have 1: "h = [] \<longrightarrow> rejected_with StatusUnauthorized c' \<and> keys c' = keys c"
    unfolding assms AuthMiddleware_cases by (simp add: rejected_Abort_Unauthorized)
  have 2: "take 7 h \<noteq> ''Bearer '' \<longrightarrow> rejected_with StatusUnauthorized c' \<and> keys c' = keys c"
    unfolding assms AuthMiddleware_cases by (simp add: rejected_Abort_Unauthorized)
  have 3: "take 7 h = ''Bearer '' \<and> ValidateAccessToken m dec now (drop 7 h) = Inl err \<longrightarrow>
        rejected_with StatusUnauthorized c' \<and> keys c' = keys c"
    unfolding assms AuthMiddleware_cases by (auto simp add: rejected_Abort_Unauthorized)
  have 4: "aborted c' \<longrightarrow> run_chain (AuthMiddleware m dec now # hs) c = c'"
    unfolding assms by (simp add: run_chain_aborted)
  have 5: "take 7 h = ''Bearer '' \<and> ValidateAccessToken m dec now (drop 7 h) = Inr claims \<longrightarrow>
        GetString c' ContextKeyUserID = ClaimUserID claims \<and>
        GetString c' ContextKeyUserEmail = ClaimEmail claims \<and>
        GetString c' ContextKeyUserRole = ClaimRole claims \<and>
        written c' = written c \<and> aborted c' = aborted c"
    unfolding assms AuthMiddleware_cases
    by (auto simp add: Set_def GetString_def context_keys)
  have 6: "take 7 h = ''Bearer '' \<and> ValidateAccessToken m dec now (drop 7 h) = Inr claims \<longrightarrow>
        \<not> aborted c \<longrightarrow> run_chain (AuthMiddleware m dec now # hs) c = run_chain hs c'"
    using 5 unfolding assms(1) by (simp add: run_chain_next)
  show ?thesis
    using 1 2 3 4 5 6 by blast
qed

theorem AuthMiddleware_gate_witness:
  "rejected_with StatusUnauthorized
     (AuthMiddleware demo_manager (jwt_dec demo_libs) (5 * second) request_without_header) \<and>
   run_chain [AuthMiddleware demo_manager (jwt_dec demo_libs) (5 * second), ok_handler]
       request_without_header =
     AuthMiddleware demo_manager (jwt_dec demo_libs) (5 * second) request_without_header \<and>
   rejected_with StatusUnauthorized
     (AuthMiddleware demo_manager (jwt_dec demo_libs) (5 * second) (request_with ''Basic abc'')) \<and>
   rejected_with StatusUnauthorized
     (AuthMiddleware demo_manager (jwt_dec demo_libs) (5 * second)
        (request_with ''Bearer garbage'')) \<and>
   GetString (AuthMiddleware demo_manager (jwt_dec demo_libs) (5 * second)
                (request_with ''Bearer access-1'')) ContextKeyUserID = ''u1'' \<and>
   GetString (AuthMiddleware demo_manager (jwt_dec demo_libs) (5 * second)
                (request_with ''Bearer access-1'')) ContextKeyUserEmail = ''a@x.com'' \<and>
   GetString (AuthMiddleware demo_manager (jwt_dec demo_libs) (5 * second)
                (request_with ''Bearer access-1'')) ContextKeyUserRole = ''user'' \<and>
   run_chain [AuthMiddleware demo_manager (jwt_dec demo_libs) (5 * second), ok_handler]
       (request_with ''Bearer access-1'') =
     ok_handler (AuthMiddleware demo_manager (jwt_dec demo_libs) (5 * second)
                   (request_with ''Bearer access-1''))"
proof -
  let ?mw = "AuthMiddleware demo_manager (jwt_dec demo_libs) (5 * second)"
  let ?claims = "access_claims demo_manager 0 ''jti-1'' ''u1'' ''a@x.com'' ''user''"
  have h0: "GetHeader request_without_header HeaderAuthorization = []"
    by code_simp
  have r0: "rejected_with StatusUnauthorized (?mw request_without_header)"
    using AuthMiddleware_gate [OF refl refl, where c = request_without_header] h0 by blast
  then have "aborted (?mw request_without_header)"
    by (simp add: rejected_with_def)
  then have n0: "run_chain [?mw, ok_handler] request_without_header = ?mw request_without_header"
    using AuthMiddleware_gate [OF refl refl, where c = request_without_header] by blast
  have h1: "take 7 (GetHeader (request_with ''Basic abc'') HeaderAuthorization) \<noteq> ''Bearer ''"
    by code_simp
  have r1: "rejected_with StatusUnauthorized (?mw (request_with ''Basic abc''))"
    using AuthMiddleware_gate [OF refl refl, where c = "request_with ''Basic abc''"] h1 by blast
  have h2: "take 7 (GetHeader (request_with ''Bearer garbage'') HeaderAuthorization) = ''Bearer ''"
    by code_simp
  have v2: "ValidateAccessToken demo_manager (jwt_dec demo_libs) (5 * second)
              (drop 7 (GetHeader (request_with ''Bearer garbage'') HeaderAuthorization)) =
            Inl (jwt_ErrInvalidToken (Some ErrTokenMalformed))"
    by code_simp
  have r2: "rejected_with StatusUnauthorized (?mw (request_with ''Bearer garbage''))"
    using AuthMiddleware_gate [OF refl refl, where c = "request_with ''Bearer garbage''"] h2 v2
    by blast
  have h3: "take 7 (GetHeader (request_with ''Bearer access-1'') HeaderAuthorization) = ''Bearer ''"
    by code_simp
  have v3: "ValidateAccessToken demo_manager (jwt_dec demo_libs) (5 * second)
              (drop 7 (GetHeader (request_with ''Bearer access-1'') HeaderAuthorization)) =
            Inr ?claims"
    by code_simp
  have a3: "\<not> aborted (request_with ''Bearer access-1'')"
    by code_simp
  have f3: "ClaimUserID ?claims = ''u1''" "ClaimEmail ?claims = ''a@x.com''"
    "ClaimRole ?claims = ''user''"
    by (simp_all add: access_claims_def)
  have r3: "GetString (?mw (request_with ''Bearer access-1'')) ContextKeyUserID = ''u1'' \<and>
            GetString (?mw (request_with ''Bearer access-1'')) ContextKeyUserEmail = ''a@x.com'' \<and>
            GetString (?mw (request_with ''Bearer access-1'')) ContextKeyUserRole = ''user'' \<and>
            run_chain [?mw, ok_handler] (request_with ''Bearer access-1'') =
              run_chain [ok_handler] (?mw (request_with ''Bearer access-1''))"
    using AuthMiddleware_gate [OF refl refl, where c = "request_with ''Bearer access-1''"
        and claims = ?claims and hs = "[ok_handler]"] h3 v3 a3 f3
    by metis
  have ok: "run_chain [ok_handler] c = ok_handler c" for c
    by (simp add: Let_def)
  show ?thesis
    using r0 n0 r1 r2 r3 by (simp only: ok)
qed

section \<open>The role gate\<close>

lemma RequireRole_cases:
  "RequireRole roles c =
     (if GetString c ContextKeyUserRole = [] then Abort (Unauthorized ''Unauthorized'' c)
      else if GetString c ContextKeyUserRole \<notin> set roles
           then Abort (Forbidden ''Insufficient permissions'' c)
      else c)"
  by (simp add: RequireRole_def Let_def)

text \<open>
  Claim C6, as amended. The gate first tests whether the context holds a role at all: a
  request whose role is empty (no role was set, or the token carried none) is answered
  401 and aborted, whatever the allowed roles are. A request with a role that is not
  among the allowed roles is answered 403 and aborted, and 403 is never 401. A request
  with a role among the allowed roles passes unchanged. An aborted chain ends with the
  gate; otherwise the handlers that follow run.
\<close>

theorem RequireRole_gate:
  assumes "c' = RequireRole roles c" and "userRole = GetString c ContextKeyUserRole"
  shows
    "(userRole = [] \<longrightarrow> rejected_with StatusUnauthorized c') \<and>
     (userRole \<noteq> [] \<and> userRole \<notin> set roles \<longrightarrow> rejected_with StatusForbidden c') \<and>
     (userRole \<noteq> [] \<and> userRole \<in> set roles \<longrightarrow> c' = c) \<and>
     (aborted c' \<longrightarrow> run_chain (RequireRole roles # hs) c = c') \<and>
     (\<not> aborted c' \<longrightarrow> run_chain (RequireRole roles # hs) c = run_chain hs c') \<and>
     \<not> (rejected_with StatusForbidden c' \<and> rejected_with StatusUnauthorized c')"
  unfolding assms RequireRole_cases
  by (auto simp: rejected_with_def Abort_def Unauthorized_def Forbidden_def response_Error_def
      StatusForbidden_def StatusUnauthorized_def Let_def split: option.splits)

text \<open>
  An instance, the scenario of the spec: a request authenticated with the role
  \<open>user\<close> is answered 403 by the admin-only gate and passes a gate that allows \<open>user\<close>;
  a request with no role is answered 401.
\<close>

theorem RequireRole_gate_witness:
  "rejected_with StatusForbidden
     (RequireRole [RoleAdmin]
        (AuthMiddleware demo_manager (jwt_dec demo_libs) (5 * second)
           (request_with ''Bearer access-1''))) \<and>
   run_chain [RequireRole [RoleAdmin], ok_handler]
       (AuthMiddleware demo_manager (jwt_dec demo_libs) (5 * second)
          (request_with ''Bearer access-1'')) =
     RequireRole [RoleAdmin]
       (AuthMiddleware demo_manager (jwt_dec demo_libs) (5 * second)
          (request_with ''Bearer access-1'')) \<and>
   RequireRole [RoleUser]
       (AuthMiddleware demo_manager (jwt_dec demo_libs) (5 * second)
          (request_with ''Bearer access-1'')) =
     AuthMiddleware demo_manager (jwt_dec demo_libs) (5 * second)
       (request_with ''Bearer access-1'') \<and>
   rejected_with StatusUnauthorized (RequireRole [RoleAdmin] request_without_header)"
proof -
  let ?c = "AuthMiddleware demo_manager (jwt_dec demo_libs) (5 * second)
              (request_with ''Bearer access-1'')"
  have role: "GetString ?c ContextKeyUserRole = ''user''"
    by code_simp
  have ne: "''user'' \<noteq> []"
    by simp
  have out: "''user'' \<notin> set [RoleAdmin]"
    by code_simp
  have inn: "''user'' \<in> set [RoleUser]"
    by code_simp
  have 1: "rejected_with StatusForbidden (RequireRole [RoleAdmin] ?c)"
    using RequireRole_gate [OF refl role [symmetric], of "[RoleAdmin]"] ne out by blast
  then have "aborted (RequireRole [RoleAdmin] ?c)"
    by (simp add: rejected_with_def)
  then have 2: "run_chain [RequireRole [RoleAdmin], ok_handler] ?c = RequireRole [RoleAdmin] ?c"
    using RequireRole_gate [OF refl role [symmetric], of "[RoleAdmin]" "[ok_handler]"] by blast
  have 3: "RequireRole [RoleUser] ?c = ?c"
    using RequireRole_gate [OF refl role [symmetric], of "[RoleUser]"] ne inn by blast
  have none: "GetString request_without_header ContextKeyUserRole = []"
    by code_simp
  have 4: "rejected_with StatusUnauthorized (RequireRole [RoleAdmin] request_without_header)"
    using RequireRole_gate [OF refl none [symmetric], of "[RoleAdmin]"] by blast
  show ?thesis
    using 1 2 3 4 by blast
qed

text \<open>
  The claim as stated fails on a request whose role is empty. The token manager accepts
  a refresh token as an access token (its claims decode with an empty user id, email
  and role), so the chain of the admin routes, the authentication middleware and then
  the admin-only gate, reaches the gate with an empty role: the role is not among the
  allowed roles, and the answer is 401, not 403.
\<close>

theorem RequireRole_forbidden_counterexample:
  "\<not> aborted (AuthMiddleware demo_manager (jwt_dec demo_libs) (5 * second)
               (request_with ''Bearer refresh-1'')) \<and>
   GetString (AuthMiddleware demo_manager (jwt_dec demo_libs) (5 * second)
                (request_with ''Bearer refresh-1'')) ContextKeyUserRole \<notin> set [RoleAdmin] \<and>
   written (run_chain [AuthMiddleware demo_manager (jwt_dec demo_libs) (5 * second),
                       RequireRole [RoleAdmin], ok_handler]
              (request_with ''Bearer refresh-1'')) =
     Some \<lparr>status_code = 401, success = False, message = ''Unauthorized''\<rparr> \<and>
   \<not> rejected_with StatusForbidden
       (run_chain [AuthMiddleware demo_manager (jwt_dec demo_libs) (5 * second),
                   RequireRole [RoleAdmin], ok_handler]
          (request_with ''Bearer refresh-1'')) \<and>
   GetString request_without_header ContextKeyUserRole \<notin> set [RoleAdmin] \<and>
   \<not> rejected_with StatusForbidden (RequireRole [RoleAdmin] request_without_header)"
  by code_simp

section \<open>Login\<close>

lemma Login_cases:
  "Login uc libs draw req w =
     (case repo_GetByEmail (userRepo uc) (LoginEmail req) (store w) of
        Inl err \<Rightarrow> if err = ErrUserNotFound then Inl ErrInvalidCredentials else Inl ErrInternal
      | Inr user \<Rightarrow>
          if \<not> IsActive user then Inl ErrUnauthorized
          else if \<not> IsValid (bcrypt_lib libs) (passwordHasher uc) (Password user)
                     (LoginPassword req)
          then Inl ErrInvalidCredentials
          else Inr \<lparr>RespUser = toUserResponse user,
                    RespAccessToken = jwt_enc libs
                      (access_jws (jwtManager uc) (access_now draw) (access_uuid draw)
                         (ID user) (Email user) (Role user)),
                    RespRefreshToken = jwt_enc libs
                      (refresh_jws (jwtManager uc) (refresh_now draw) (refresh_uuid draw)
                         (ID user)),
                    RespTokenType = ''Bearer'', RespExpiresIn = 900\<rparr>)"
  by (simp add: Login_def errors_Is_def GenerateAccessToken_def GenerateRefreshToken_def
      split: sum.split)

text \<open>
  Claim C3, as amended. Let \<open>found\<close> be the answer of the repository for the email of
  the request. When no user is found, \<open>Login\<close> returns the invalid-credentials error.
  When a user is found and is not active, it returns the unauthorized error, whether the
  password is right or wrong: the check of the account comes before the check of the
  password. When the user is active and the password does not verify, it returns the
  invalid-credentials error, the same as for no user. Otherwise it returns the user and
  the two tokens generated in this call. The two errors are different values.
\<close>

theorem Login_outcomes:
  assumes "found = repo_GetByEmail (userRepo uc) (LoginEmail req) (store w)"
  shows
    "(found = Inl ErrUserNotFound \<longrightarrow> Login uc libs draw req w = Inl ErrInvalidCredentials) \<and>
     (found = Inr user \<and> \<not> IsActive user \<longrightarrow> Login uc libs draw req w = Inl ErrUnauthorized) \<and>
     (found = Inr user \<and> IsActive user \<and>
        \<not> IsValid (bcrypt_lib libs) (passwordHasher uc) (Password user) (LoginPassword req) \<longrightarrow>
        Login uc libs draw req w = Inl ErrInvalidCredentials) \<and>
     (found = Inr user \<and> IsActive user \<and>
        IsValid (bcrypt_lib libs) (passwordHasher uc) (Password user) (LoginPassword req) \<longrightarrow>
        (\<exists>accessToken refreshToken.
           GenerateAccessToken (jwtManager uc) (jwt_enc libs) (access_now draw)
             (access_uuid draw) (ID user) (Email user) (Role user) = Inr accessToken \<and>
           GenerateRefreshToken (jwtManager uc) (jwt_enc libs) (refresh_now draw)
             (refresh_uuid draw) (ID user) = Inr refreshToken \<and>
           Login uc libs draw req w =
             Inr \<lparr>RespUser = toUserResponse user, RespAccessToken = accessToken,
                  RespRefreshToken = refreshToken, RespTokenType = ''Bearer'',
                  RespExpiresIn = 900\<rparr>)) \<and>
     ErrUnauthorized \<noteq> ErrInvalidCredentials"
  unfolding assms Login_cases
  by (auto simp: GenerateAccessToken_def GenerateRefreshToken_def)

theorem Login_outcomes_witness:
  "Login demo_uc demo_libs demo_draw \<lparr>LoginEmail = ''nobody@x.com'', LoginPassword = ''Abcdef1!''\<rparr>
     demo_world = Inl ErrInvalidCredentials \<and>
   Login demo_uc demo_libs demo_draw \<lparr>LoginEmail = ''b@x.com'', LoginPassword = ''Abcdef1!''\<rparr>
     demo_world = Inl ErrUnauthorized \<and>
   Login demo_uc demo_libs demo_draw \<lparr>LoginEmail = ''a@x.com'', LoginPassword = ''wrong''\<rparr>
     demo_world = Inl ErrInvalidCredentials \<and>
   Login demo_uc demo_libs demo_draw \<lparr>LoginEmail = ''a@x.com'', LoginPassword = ''Abcdef1!''\<rparr>
     demo_world =
     Inr \<lparr>RespUser = toUserResponse alice, RespAccessToken = ''access-2'',
          RespRefreshToken = ''refresh-2'', RespTokenType = ''Bearer'', RespExpiresIn = 900\<rparr>"
proof -
  let ?get = "\<lambda>email. repo_GetByEmail (userRepo demo_uc) email (store demo_world)"
  have g0: "?get (LoginEmail \<lparr>LoginEmail = ''nobody@x.com'', LoginPassword = ''Abcdef1!''\<rparr>)
              = Inl ErrUserNotFound"
    by code_simp
  have 0: "Login demo_uc demo_libs demo_draw
             \<lparr>LoginEmail = ''nobody@x.com'', LoginPassword = ''Abcdef1!''\<rparr> demo_world =
           Inl ErrInvalidCredentials"
    using Login_outcomes [OF refl, where uc = demo_uc and w = demo_world
        and req = "\<lparr>LoginEmail = ''nobody@x.com'', LoginPassword = ''Abcdef1!''\<rparr>"] g0
    by blast
  have g1: "?get (LoginEmail \<lparr>LoginEmail = ''b@x.com'', LoginPassword = ''Abcdef1!''\<rparr>) = Inr bob"
    by code_simp
  have a1: "\<not> IsActive bob"
    by code_simp
  have 1: "Login demo_uc demo_libs demo_draw
             \<lparr>LoginEmail = ''b@x.com'', LoginPassword = ''Abcdef1!''\<rparr> demo_world =
           Inl ErrUnauthorized"
    using Login_outcomes [OF refl, where uc = demo_uc and w = demo_world and user = bob
        and req = "\<lparr>LoginEmail = ''b@x.com'', LoginPassword = ''Abcdef1!''\<rparr>"] g1 a1
    by blast
  have g2: "?get (LoginEmail \<lparr>LoginEmail = ''a@x.com'', LoginPassword = ''wrong''\<rparr>) = Inr alice"
    by code_simp
  have a2: "IsActive alice"
    by code_simp
  have p2: "\<not> IsValid (bcrypt_lib demo_libs) (passwordHasher demo_uc) (Password alice)
               (LoginPassword \<lparr>LoginEmail = ''a@x.com'', LoginPassword = ''wrong''\<rparr>)"
    by code_simp
  have 2: "Login demo_uc demo_libs demo_draw
             \<lparr>LoginEmail = ''a@x.com'', LoginPassword = ''wrong''\<rparr> demo_world =
           Inl ErrInvalidCredentials"
    using Login_outcomes [OF refl, where uc = demo_uc and w = demo_world and user = alice
        and libs = demo_libs
        and req = "\<lparr>LoginEmail = ''a@x.com'', LoginPassword = ''wrong''\<rparr>"]
      g2 a2 p2
    by blast
  have g3: "?get (LoginEmail \<lparr>LoginEmail = ''a@x.com'', LoginPassword = ''Abcdef1!''\<rparr>) = Inr alice"
    by code_simp
  have p3: "IsValid (bcrypt_lib demo_libs) (passwordHasher demo_uc) (Password alice)
              (LoginPassword \<lparr>LoginEmail = ''a@x.com'', LoginPassword = ''Abcdef1!''\<rparr>)"
    by code_simp
  have e1: "jwt_enc demo_libs (access_jws (jwtManager demo_uc) (access_now demo_draw)
              (access_uuid demo_draw) (ID alice) (Email alice) (Role alice)) = ''access-2''"
    by code_simp
  have e2: "jwt_enc demo_libs (refresh_jws (jwtManager demo_uc) (refresh_now demo_draw)
              (refresh_uuid demo_draw) (ID alice)) = ''refresh-2''"
    by code_simp
  have g: "GenerateAccessToken (jwtManager demo_uc) (jwt_enc demo_libs) (access_now demo_draw)
             (access_uuid demo_draw) (ID alice) (Email alice) (Role alice) = Inr ''access-2''"
    "GenerateRefreshToken (jwtManager demo_uc) (jwt_enc demo_libs) (refresh_now demo_draw)
             (refresh_uuid demo_draw) (ID alice) = Inr ''refresh-2''"
    by (simp_all only: GenerateAccessToken_def GenerateRefreshToken_def e1 e2)
  have 3: "Login demo_uc demo_libs demo_draw
             \<lparr>LoginEmail = ''a@x.com'', LoginPassword = ''Abcdef1!''\<rparr> demo_world =
          Inr \<lparr>RespUser = toUserResponse alice, RespAccessToken = ''access-2'',
               RespRefreshToken = ''refresh-2'', RespTokenType = ''Bearer'', RespExpiresIn = 900\<rparr>"
    using Login_outcomes [OF refl, where uc = demo_uc and w = demo_world and user = alice
        and libs = demo_libs and draw = demo_draw
        and req = "\<lparr>LoginEmail = ''a@x.com'', LoginPassword = ''Abcdef1!''\<rparr>"]
      g3 a2 p3 g
    by auto
  show ?thesis
    using 0 1 2 3 by blast
qed

text \<open>
  The claim as stated fails for a user who exists, is not active, and gives a wrong
  password: the claim promises the invalid-credentials error, \<open>Login\<close> returns the
  unauthorized error.
\<close>

theorem Login_wrong_password_counterexample:
  "repo_GetByEmail (userRepo demo_uc) ''b@x.com'' (store demo_world) = Inr bob \<and>
   \<not> IsValid (bcrypt_lib demo_libs) (passwordHasher demo_uc) (Password bob) ''wrong'' \<and>
   Login demo_uc demo_libs demo_draw \<lparr>LoginEmail = ''b@x.com'', LoginPassword = ''wrong''\<rparr>
     demo_world = Inl ErrUnauthorized \<and>
   Login demo_uc demo_libs demo_draw \<lparr>LoginEmail = ''b@x.com'', LoginPassword = ''wrong''\<rparr>
     demo_world \<noteq> Inl ErrInvalidCredentials"
  by code_simp

section \<open>Who can authenticate\<close>

lemma RefreshToken_cases:
  "RefreshToken uc libs now draw tok w =
     (case ValidateRefreshToken (jwtManager uc) (jwt_dec libs) now tok of
        Inl err \<Rightarrow> Inl ErrInvalidToken
      | Inr userID \<Rightarrow>
     (case repo_GetByID (userRepo uc) userID (store w) of
        Inl err \<Rightarrow> if err = ErrUserNotFound then Inl ErrUnauthorized else Inl ErrInternal
      | Inr user \<Rightarrow>
          if \<not> IsActive user then Inl ErrUnauthorized
          else Inr \<lparr>NewAccessToken = jwt_enc libs
                      (access_jws (jwtManager uc) (access_now draw) (access_uuid draw)
                         (ID user) (Email user) (Role user)),
                    NewRefreshToken = jwt_enc libs
                      (refresh_jws (jwtManager uc) (refresh_now draw) (refresh_uuid draw)
                         (ID user)),
                    NewTokenType = ''Bearer'', NewExpiresIn = 900\<rparr>))"
  by (simp add: RefreshToken_def errors_Is_def GenerateAccessToken_def GenerateRefreshToken_def
      split: sum.split)

text \<open>
  Claim C10. If \<open>Login\<close> succeeds, the repository returned for the email a record whose
  status is \<open>active\<close> and whose deletion time is nil; if \<open>RefreshToken\<close> succeeds, the
  token validated and the repository returned such a record for its subject. A record
  that the repository returns and that is not both (its status reads \<open>active\<close> but its
  deletion time is set, for one) is answered with the unauthorized error by both.
\<close>

theorem authentication_needs_active_and_not_deleted:
  "(Login uc libs draw req w = Inr resp \<longrightarrow>
      (\<exists>user. repo_GetByEmail (userRepo uc) (LoginEmail req) (store w) = Inr user \<and>
              Status user = ''active'' \<and> DeletedAt user = None)) \<and>
   (RefreshToken uc libs now draw tok w = Inr resp' \<longrightarrow>
      (\<exists>userID user.
         ValidateRefreshToken (jwtManager uc) (jwt_dec libs) now tok = Inr userID \<and>
         repo_GetByID (userRepo uc) userID (store w) = Inr user \<and>
         Status user = ''active'' \<and> DeletedAt user = None)) \<and>
   (repo_GetByEmail (userRepo uc) (LoginEmail req) (store w) = Inr u \<and>
      \<not> (Status u = ''active'' \<and> DeletedAt u = None) \<longrightarrow>
      Login uc libs draw req w = Inl ErrUnauthorized) \<and>
   (ValidateRefreshToken (jwtManager uc) (jwt_dec libs) now tok = Inr subject \<and>
      repo_GetByID (userRepo uc) subject (store w) = Inr u' \<and>
      \<not> (Status u' = ''active'' \<and> DeletedAt u' = None) \<longrightarrow>
      RefreshToken uc libs now draw tok w = Inl ErrUnauthorized)"
proof -
  have 1: "Login uc libs draw req w = Inr resp \<longrightarrow>
      (\<exists>user. repo_GetByEmail (userRepo uc) (LoginEmail req) (store w) = Inr user \<and>
              Status user = ''active'' \<and> DeletedAt user = None)"
    unfolding Login_cases by (auto simp: IsActive_def split: sum.splits if_splits)
  have 2: "RefreshToken uc libs now draw tok w = Inr resp' \<longrightarrow>
      (\<exists>userID user.
         ValidateRefreshToken (jwtManager uc) (jwt_dec libs) now tok = Inr userID \<and>
         repo_GetByID (userRepo uc) userID (store w) = Inr user \<and>
         Status user = ''active'' \<and> DeletedAt user = None)"
    unfolding RefreshToken_cases by (auto simp: IsActive_def split: sum.splits if_splits)
  have 3: "repo_GetByEmail (userRepo uc) (LoginEmail req) (store w) = Inr u \<and>
      \<not> (Status u = ''active'' \<and> DeletedAt u = None) \<longrightarrow>
      Login uc libs draw req w = Inl ErrUnauthorized"
    unfolding Login_cases by (auto simp: IsActive_def)
  have 4: "ValidateRefreshToken (jwtManager uc) (jwt_dec libs) now tok = Inr subject \<and>
      repo_GetByID (userRepo uc) subject (store w) = Inr u' \<and>
      \<not> (Status u' = ''active'' \<and> DeletedAt u' = None) \<longrightarrow>
      RefreshToken uc libs now draw tok w = Inl ErrUnauthorized"
    unfolding RefreshToken_cases by (auto simp: IsActive_def)
  show ?thesis
    using 1 2 3 4 by blast
qed

theorem authentication_needs_active_and_not_deleted_witness:
  "Status ghost = ''active'' \<and> DeletedAt ghost = Some second \<and>
   Login (mock_uc ghost) demo_libs demo_draw
     \<lparr>LoginEmail = ''a@x.com'', LoginPassword = ''Abcdef1!''\<rparr> mock_world = Inl ErrUnauthorized \<and>
   RefreshToken (mock_uc ghost) demo_libs (5 * second) demo_draw ''refresh-1'' mock_world =
     Inl ErrUnauthorized \<and>
   (\<exists>user. repo_GetByEmail (userRepo demo_uc) ''a@x.com'' (store demo_world) = Inr user \<and>
           Status user = ''active'' \<and> DeletedAt user = None)"
proof -
  let ?req = "\<lparr>LoginEmail = ''a@x.com'', LoginPassword = ''Abcdef1!''\<rparr>"
  have s: "Status ghost = ''active''" and d: "DeletedAt ghost = Some second"
    by code_simp+
  have g: "repo_GetByEmail (userRepo (mock_uc ghost)) (LoginEmail ?req) (store mock_world)
             = Inr ghost"
    by (simp add: mock_uc_def MockUserRepository_def)
  have n: "\<not> (Status ghost = ''active'' \<and> DeletedAt ghost = None)"
    using d by simp
  have 1: "Login (mock_uc ghost) demo_libs demo_draw ?req mock_world = Inl ErrUnauthorized"
    using authentication_needs_active_and_not_deleted
      [where uc = "mock_uc ghost" and req = ?req and w = mock_world and u = ghost
        and libs = demo_libs and draw = demo_draw] g n
    by blast
  have v: "ValidateRefreshToken (jwtManager (mock_uc ghost)) (jwt_dec demo_libs) (5 * second)
             ''refresh-1'' = Inr ''u1''"
    by code_simp
  have i: "repo_GetByID (userRepo (mock_uc ghost)) ''u1'' (store mock_world) = Inr ghost"
    by (simp add: mock_uc_def MockUserRepository_def)
  have 2: "RefreshToken (mock_uc ghost) demo_libs (5 * second) demo_draw ''refresh-1'' mock_world
             = Inl ErrUnauthorized"
    using authentication_needs_active_and_not_deleted
      [where uc = "mock_uc ghost" and w = mock_world and u' = ghost and subject = "''u1''"
        and libs = demo_libs and draw = demo_draw and now = "5 * second"
        and tok = "''refresh-1''"] v i n
    by blast
  have l: "Login demo_uc demo_libs demo_draw ?req demo_world =
             Inr \<lparr>RespUser = toUserResponse alice, RespAccessToken = ''access-2'',
                  RespRefreshToken = ''refresh-2'', RespTokenType = ''Bearer'',
                  RespExpiresIn = 900\<rparr>"
    by code_simp
  have 3: "\<exists>user. repo_GetByEmail (userRepo demo_uc) ''a@x.com'' (store demo_world) = Inr user \<and>
             Status user = ''active'' \<and> DeletedAt user = None"
    using authentication_needs_active_and_not_deleted
      [where uc = demo_uc and req = ?req and w = demo_world and libs = demo_libs
        and draw = demo_draw] l
    by simp
  show ?thesis
    using s d 1 2 3 by blast
qed

section \<open>Registration when the insert fails\<close>

text \<open>
  Claim C7, as amended. When both pre-checks of \<open>Register\<close> pass and the password is
  hashed, and the insert then fails with any error of the repository, a violation of a
  unique constraint included, \<open>Register\<close> returns the generic internal error; the
  already-exists outcomes come from the pre-checks only.
\<close>

theorem Register_insert_failure_is_internal:
  assumes "repo_ExistsByEmail (userRepo uc) (ReqEmail req) (store w) = Inr False"
    and "repo_ExistsByUsername (userRepo uc) (ReqUsername req) (store w) = Inr False"
    and "Hash (bcrypt_lib libs) (passwordHasher uc) salt (ReqPassword req) = Inr hashedPassword"
    and "repo_Create (userRepo uc)
           (NewUser now uuid (ReqEmail req) (ReqUsername req) hashedPassword (ReqFullName req)
              RoleUser) (store w) = (Some err, s')"
  shows "Register uc libs now uuid salt req w = (Inl ErrInternal, w\<lparr>store := s'\<rparr>)"
  using assms by (simp add: Register_def Let_def)

theorem Register_insert_failure_is_internal_witness:
  "repo_Create (userRepo demo_uc)
     (NewUser (10 * second) ''u4'' ''c@x.com'' ''carol2'' ''salt$Abcdef1!'' ''Carol C'' RoleUser)
     (store demo_world) =
     (Some (ErrWrapped ''failed to create user'' (UniqueViolation ''users_email_key'')),
      store demo_world) \<and>
   Register demo_uc demo_libs (10 * second) ''u4'' ''salt'' carol_again demo_world =
     (Inl ErrInternal, demo_world\<lparr>store := store demo_world\<rparr>)"
proof -
  have e: "repo_ExistsByEmail (userRepo demo_uc) (ReqEmail carol_again) (store demo_world)
             = Inr False"
    by code_simp
  have u: "repo_ExistsByUsername (userRepo demo_uc) (ReqUsername carol_again) (store demo_world)
             = Inr False"
    by code_simp
  have h: "Hash (bcrypt_lib demo_libs) (passwordHasher demo_uc) ''salt'' (ReqPassword carol_again)
             = Inr ''salt$Abcdef1!''"
    by code_simp
  have c: "repo_Create (userRepo demo_uc)
             (NewUser (10 * second) ''u4'' (ReqEmail carol_again) (ReqUsername carol_again)
                ''salt$Abcdef1!'' (ReqFullName carol_again) RoleUser) (store demo_world) =
           (Some (ErrWrapped ''failed to create user'' (UniqueViolation ''users_email_key'')),
            store demo_world)"
    by code_simp
  have f: "ReqEmail carol_again = ''c@x.com''" "ReqUsername carol_again = ''carol2''"
    "ReqFullName carol_again = ''Carol C''"
    by (simp_all add: carol_again_def)
  show ?thesis
    using Register_insert_failure_is_internal [OF e u h c] c by (simp only: f)
qed

text \<open>
  The claim as stated fails: the email of a soft-deleted user passes the pre-check, which
  looks at rows that are not deleted, and violates the unique constraint of the table,
  which holds over every row; \<open>Register\<close> answers with the internal error.
\<close>

theorem Register_unique_violation_counterexample:
  "Postgres_ExistsByEmail ''c@x.com'' demo_db = Inr False \<and>
   Postgres_ExistsByUsername ''carol2'' demo_db = Inr False \<and>
   fst (Postgres_Create
          (NewUser (10 * second) ''u4'' ''c@x.com'' ''carol2'' ''salt$Abcdef1!'' ''Carol C'' RoleUser)
          demo_db) =
     Some (ErrWrapped ''failed to create user'' (UniqueViolation ''users_email_key'')) \<and>
   fst (Register demo_uc demo_libs (10 * second) ''u4'' ''salt'' carol_again demo_world) =
     Inl ErrInternal \<and>
   fst (Register demo_uc demo_libs (10 * second) ''u4'' ''salt'' carol_again demo_world) \<noteq>
     Inl ErrEmailAlreadyExists"
  by code_simp

section \<open>The profile cache\<close>

text \<open>The answer of \<open>GetProfile\<close> does not depend on the cache.\<close>

lemma GetProfile_ignores_cache:
  "fst (GetProfile uc libs userID \<lparr>store = s, cache = c1\<rparr>) =
   fst (GetProfile uc libs userID \<lparr>store = s, cache = c2\<rparr>)"
  by (simp add: GetProfile_def split: sum.split)

text \<open>After a successful update or delete, a cache that answers holds no entry for the user.\<close>

lemma UpdateProfile_invalidates:
  "UpdateProfile uc now userID fullName w = (Inr resp, w') \<Longrightarrow> redis_up (cache w) \<Longrightarrow>
   entries (cache w') (cacheKey userID) = None"
  by (auto simp: UpdateProfile_def Redis_Delete_def Let_def split: sum.splits prod.splits
      option.splits if_splits)

lemma DeleteUser_invalidates:
  "DeleteUser uc userID w = (None, w') \<Longrightarrow> redis_up (cache w) \<Longrightarrow>
   entries (cache w') (cacheKey userID) = None"
  by (auto simp: DeleteUser_def Redis_Delete_def split: prod.splits option.splits if_splits)

text \<open>
  Claim C2 fails on the code, which says in a comment that it tries the cache first and
  then never reads it. With an entry for the user in the cache: when the database does
  not answer, \<open>GetProfile\<close> fails with the internal error; when the stored profile
  differs from the cached one, \<open>GetProfile\<close> returns the stored one. In both cases the
  store was queried on a cache hit.
\<close>

theorem GetProfile_queries_store_on_cache_hit:
  "Redis_Get (cacheKey ''u1'') (cache cached_world) = Inr ''Alice A'' \<and>
   fst (GetProfile demo_uc demo_libs ''u1'' cached_world) = Inl ErrInternal \<and>
   Redis_Get (cacheKey ''u1'') (cache stale_world) = Inr ''Old Name'' \<and>
   fst (GetProfile demo_uc demo_libs ''u1'' stale_world) = Inr (toUserResponse alice)"
  by code_simp

section \<open>Soft delete\<close>

lemma tombstone_fields:
  "ID (tombstone i t r) = ID r" "Email (tombstone i t r) = Email r"
  "Username (tombstone i t r) = Username r"
  by (simp_all add: tombstone_def MarkAsDeleted_def)

lemma tombstone_not_hit: "\<not> (ID (tombstone i t r) = i \<and> live (tombstone i t r))"
  by (simp add: tombstone_def MarkAsDeleted_def live_def)

lemma tombstone_live: "live (tombstone i t r) \<Longrightarrow> ID r \<noteq> i"
  using tombstone_not_hit [of i t r] by (simp add: tombstone_fields)

lemma Postgres_Delete_live:
  assumes "db_up d" and "u \<in> set (users d)" and "live u"
  shows "Postgres_Delete (ID u) d =
           (None, d\<lparr>users := map (tombstone (ID u) (db_now d)) (users d)\<rparr>)"
proof -
  have "filter (\<lambda>r. ID r = ID u \<and> live r) (users d) \<noteq> []"
    using assms(2) assms(3) by (auto simp: filter_empty_conv)
  then show ?thesis
    using assms(1)
    by (simp add: Postgres_Delete_def Let_def tombstone_def [abs_def] MarkAsDeleted_def)
qed

lemma distinct_key:
  "distinct (map f xs) \<Longrightarrow> x \<in> set xs \<Longrightarrow> y \<in> set xs \<Longrightarrow> f x = f y \<Longrightarrow> x = y"
  by (meson distinct_map inj_onD)

lemma no_live_id:
  "filter (\<lambda>r. ID r = i \<and> live r) (map (tombstone i t) xs) = []"
  using tombstone_not_hit [of i t] by (auto simp: filter_empty_conv)

lemma find_no_live_id:
  "find (\<lambda>r. ID r = i \<and> live r) (map (tombstone i t) xs) = None"
  using tombstone_not_hit [of i t] by (auto simp: find_None_iff)

lemma no_live_key:
  assumes "distinct (map f xs)" and "u \<in> set xs" and "live u"
    and "\<And>r. f (tombstone (ID u) t r) = f r"
    and "r \<in> set (map (tombstone (ID u) t) xs)"
  shows "\<not> (f r = f u \<and> live r)"
proof
  assume a: "f r = f u \<and> live r"
  obtain r0 where r0: "r0 \<in> set xs" "r = tombstone (ID u) t r0"
    using assms(5) by auto
  then have "f r0 = f u"
    using a assms(4) by simp
  then have "r0 = u"
    using assms(1) assms(2) r0(1) distinct_key by metis
  then have "\<not> live r"
    using r0(2) tombstone_not_hit [of "ID u" t u] by (simp add: tombstone_fields)
  with a show False by simp
qed

lemma find_tombstone:
  assumes "distinct (map ID xs)" and "u \<in> set xs" and "live u"
  shows "find (\<lambda>r. ID r = ID u) (map (tombstone (ID u) t) xs) = Some (MarkAsDeleted t u)"
  using assms
proof (induction xs)
  case Nil
  then show ?case by simp
next
  case (Cons x xs)
  show ?case
  proof (cases "x = u")
    case True
    then show ?thesis
      using Cons.prems(3) by (simp add: tombstone_fields) (simp add: tombstone_def)
  next
    case False
    then have "u \<in> set xs" using Cons.prems(2) by simp
    moreover have "ID x \<noteq> ID u"
      using Cons.prems(1) \<open>u \<in> set xs\<close> by auto
    ultimately show ?thesis
      using Cons by (simp add: tombstone_fields)
  qed
qed


lemma set_page: "set (take n (drop k (sort_key f xs))) \<subseteq> set xs"
proof -
  have "set (take n (drop k (sort_key f xs))) \<subseteq> set (sort_key f xs)"
    by (meson set_take_subset set_drop_subset subset_trans)
  then show ?thesis by simp
qed

lemma Postgres_List_live:
  assumes "Postgres_List ilike page pageSize search role status d = Inr (us, n)"
    and "r \<in> set us"
  shows "r \<in> set (users d) \<and> live r"
proof -
  have "us = take (nat pageSize) (drop (nat ((page - 1) * pageSize))
               (sort_key (\<lambda>u. - CreatedAt u)
                  (filter (list_filter ilike search role status) (users d))))"
    using assms(1) by (auto simp: Postgres_List_def Let_def split: if_splits)
  then have "set us \<subseteq> set (filter (list_filter ilike search role status) (users d))"
    by (simp only: set_page)
  then have "r \<in> set (filter (list_filter ilike search role status) (users d))"
    using assms(2) by blast
  then show ?thesis
    by (simp add: list_filter_def)
qed

lemma table_ok_tombstone:
  "table_ok d \<Longrightarrow> table_ok (d\<lparr>users := map (tombstone i t) (users d)\<rparr>)"
  by (simp add: table_ok_def comp_def tombstone_fields)

text \<open>
  The unique constraints hold in every database that the repository reaches: an insert
  and an update that succeed keep them, and so does a delete.
\<close>

lemma table_ok_Create:
  assumes "table_ok d" and "Postgres_Create user d = (None, d')"
  shows "table_ok d'"
proof -
  have v: "insert_violation (users d) user = None" and d': "d' = d\<lparr>users := users d @ [user\<lparr>DeletedAt := None\<rparr>]\<rparr>"
    using assms(2) by (auto simp: Postgres_Create_def split: if_splits option.splits)
  have "ID user \<notin> set (map ID (users d))" "Email user \<notin> set (map Email (users d))"
    "Username user \<notin> set (map Username (users d))"
    using v by (auto simp: insert_violation_def unique_violation_def split: option.splits if_splits)
  then show ?thesis
    using assms(1) by (simp add: d' table_ok_def)
qed

lemma distinct_update_one:
  assumes "distinct (map ID xs)" and "distinct (map f xs)"
    and "v \<notin> set (map f (filter (\<lambda>r. \<not> hit r) xs))"
    and "\<And>r. hit r \<Longrightarrow> ID r = i"
  shows "distinct (map (\<lambda>r. if hit r then v else f r) xs)"
  using assms(1) assms(2) assms(3)
proof (induction xs)
  case Nil
  then show ?case by simp
next
  case (Cons x xs)
  have ih: "distinct (map (\<lambda>r. if hit r then v else f r) xs)"
    using Cons by (auto split: if_splits)
  show ?case
  proof (cases "hit x")
    case True
    have nohit: "\<not> hit r" if "r \<in> set xs" for r
    proof
      assume "hit r"
      then have "ID r = ID x" using True assms(4) by metis
      moreover have "ID x \<notin> ID ` set xs" using Cons.prems(1) by simp
      ultimately show False using that by (metis imageI)
    qed
    then have same: "map (\<lambda>r. if hit r then v else f r) xs = map f xs"
      by simp
    have "filter (\<lambda>r. \<not> hit r) xs = xs"
      using nohit by (simp add: filter_id_conv)
    then have "v \<notin> set (map f xs)"
      using Cons.prems(3) True by simp
    moreover have "set (map (\<lambda>r. if hit r then v else f r) xs) = set (map f xs)"
      by (simp only: same)
    ultimately have "v \<notin> set (map (\<lambda>r. if hit r then v else f r) xs)"
      by blast
    then show ?thesis
      using True ih by simp
  next
    case False
    have "f x \<noteq> v"
      using Cons.prems(3) False by auto
    moreover have "f x \<notin> set (map f xs)"
      using Cons.prems(2) by simp
    ultimately have "f x \<notin> set (map (\<lambda>r. if hit r then v else f r) xs)"
      by auto
    then show ?thesis
      using False ih by simp
  qed
qed

lemma table_ok_Update:
  assumes "table_ok d" and "Postgres_Update user d = (None, d')"
  shows "table_ok d'"
proof -
  let ?hit = "\<lambda>r. ID r = ID user \<and> live r"
  let ?g = "\<lambda>r. if ?hit r
                  then r\<lparr>Email := Email user, Username := Username user,
                         Password := Password user, FullName := FullName user,
                         Role := Role user, Status := Status user,
                         UpdatedAt := UpdatedAt user\<rparr>
                  else r"
  have v: "unique_violation (filter (\<lambda>r. \<not> ?hit r) (users d)) user = None"
    and d': "d' = d\<lparr>users := map ?g (users d)\<rparr>"
    using assms(2)
    by (auto simp: Postgres_Update_def Let_def split: if_splits option.splits)
  have e: "Email user \<notin> set (map Email (filter (\<lambda>r. \<not> ?hit r) (users d)))"
    and n: "Username user \<notin> set (map Username (filter (\<lambda>r. \<not> ?hit r) (users d)))"
    using v by (auto simp: unique_violation_def split: if_splits)
  have i: "distinct (map ID (users d))" and de: "distinct (map Email (users d))"
    and dn: "distinct (map Username (users d))"
    using assms(1) by (simp_all add: table_ok_def)
  have "map ID (map ?g (users d)) = map ID (users d)"
    by (induction "users d") auto
  moreover have "map Email (map ?g (users d)) =
      map (\<lambda>r. if ?hit r then Email user else Email r) (users d)"
    by simp
  moreover have "map Username (map ?g (users d)) =
      map (\<lambda>r. if ?hit r then Username user else Username r) (users d)"
    by simp
  moreover have "distinct (map (\<lambda>r. if ?hit r then Email user else Email r) (users d))"
    using i de e by (rule distinct_update_one) simp
  moreover have "distinct (map (\<lambda>r. if ?hit r then Username user else Username r) (users d))"
    using i dn n by (rule distinct_update_one) simp
  ultimately show ?thesis
    using i by (simp add: d' table_ok_def del: map_map)
qed

lemma Register_active:
  "fst (Register uc libs now uuid salt req w) = Inr resp \<Longrightarrow> RespStatus resp = ''active''"
  by (auto simp: Register_def Let_def toUserResponse_def NewUser_def
      split: sum.splits if_splits prod.splits option.splits)

lemma Register_Postgres_row:
  assumes "userRepo uc = NewPostgresUserRepository ilike"
    and "Register uc libs now uuid salt req w = (Inr resp, w')"
  shows "\<exists>r. users (store w') = users (store w) @ [r] \<and> Status r = ''active'' \<and> live r \<and>
             ID r = RespID resp"
  using assms
  by (auto simp: Register_def Let_def toUserResponse_def NewUser_def
      NewPostgresUserRepository_def Postgres_Create_def live_def
      split: sum.splits if_splits prod.splits option.splits)

text \<open>
  Claim C8. Let \<open>u\<close> be a row of the table that is not deleted, in a database that
  answers and whose rows satisfy the unique constraints, and let \<open>d'\<close> be the database
  after \<open>Delete\<close> of its id. The delete succeeds; the table has the same rows by id,
  none removed; the row of \<open>u\<close> is now \<open>u\<close> with the status \<open>inactive\<close> and the
  deletion time set to the time of the delete. In \<open>d'\<close> the lookups by id, by email and
  by username answer not-found, both existence checks answer false, no page of \<open>List\<close>
  holds the id, a second \<open>Delete\<close> and an \<open>Update\<close> of the id answer not-found and
  change nothing. Through the use case over this repository, \<open>DeleteUser\<close> succeeds and
  leaves \<open>d'\<close>, after which \<open>GetProfile\<close> answers not-found and \<open>Login\<close> with the
  email answers as for an unknown user. A new user is created \<open>active\<close>, and every
  successful \<open>Register\<close> answers with the status \<open>active\<close> and adds one row to the
  table, with that status and no deletion time.
\<close>

theorem soft_delete:
  assumes "db_up d" and "table_ok d" and "u \<in> set (users d)" and "live u"
    and "d' = snd (Postgres_Delete (ID u) d)"
    and "userRepo uc = NewPostgresUserRepository ilike"
  shows
    "fst (Postgres_Delete (ID u) d) = None \<and>
     map ID (users d') = map ID (users d) \<and>
     find (\<lambda>r. ID r = ID u) (users d') = Some (MarkAsDeleted (db_now d) u) \<and>
     Status (MarkAsDeleted (db_now d) u) = ''inactive'' \<and>
     DeletedAt (MarkAsDeleted (db_now d) u) = Some (db_now d) \<and>
     Postgres_GetByID (ID u) d' = Inl ErrUserNotFound \<and>
     Postgres_GetByEmail (Email u) d' = Inl ErrUserNotFound \<and>
     Postgres_GetByUsername (Username u) d' = Inl ErrUserNotFound \<and>
     Postgres_ExistsByEmail (Email u) d' = Inr False \<and>
     Postgres_ExistsByUsername (Username u) d' = Inr False \<and>
     (case Postgres_List ilike page pageSize search role status d' of
        Inl e \<Rightarrow> True
      | Inr (us, n) \<Rightarrow> ID u \<notin> set (map ID us)) \<and>
     Postgres_Delete (ID u) d' = (Some ErrUserNotFound, d') \<and>
     Postgres_Update (x\<lparr>ID := ID u\<rparr>) d' = (Some ErrUserNotFound, d') \<and>
     table_ok d' \<and>
     fst (DeleteUser uc (ID u) \<lparr>store = d, cache = c\<rparr>) = None \<and>
     store (snd (DeleteUser uc (ID u) \<lparr>store = d, cache = c\<rparr>)) = d' \<and>
     fst (GetProfile uc libs (ID u) \<lparr>store = d', cache = c\<rparr>) = Inl ErrUserNotFound \<and>
     Login uc libs draw \<lparr>LoginEmail = Email u, LoginPassword = pw\<rparr> \<lparr>store = d', cache = c\<rparr> =
       Inl ErrInvalidCredentials \<and>
     Status (NewUser now uuid email username password fullName role') = ''active'' \<and>
     (case Register uc libs now uuid salt req w of
        (Inl e, w') \<Rightarrow> True
      | (Inr resp, w') \<Rightarrow>
          RespStatus resp = ''active'' \<and> Status (last (users (store w'))) = ''active'' \<and>
          live (last (users (store w'))) \<and> ID (last (users (store w'))) = RespID resp \<and>
          butlast (users (store w')) = users (store w))"
proof -
  let ?xs = "map (tombstone (ID u) (db_now d)) (users d)"
  have del: "Postgres_Delete (ID u) d = (None, d\<lparr>users := ?xs\<rparr>)"
    using assms(1) assms(3) assms(4) by (rule Postgres_Delete_live)
  then have d': "d' = d\<lparr>users := ?xs\<rparr>"
    using assms(5) by simp
  have up: "db_up d'" and us: "users d' = ?xs"
    using d' assms(1) by simp_all
  have 1: "fst (Postgres_Delete (ID u) d) = None"
    using del by simp
  have 2: "map ID (users d') = map ID (users d)"
    by (simp add: us comp_def tombstone_fields)
  have 3: "find (\<lambda>r. ID r = ID u) (users d') = Some (MarkAsDeleted (db_now d) u)"
    unfolding us using assms(2) assms(3) assms(4) by (simp add: table_ok_def find_tombstone)
  have 4: "Status (MarkAsDeleted (db_now d) u) = ''inactive''"
    "DeletedAt (MarkAsDeleted (db_now d) u) = Some (db_now d)"
    by (simp_all add: MarkAsDeleted_def)
  have 5: "Postgres_GetByID (ID u) d' = Inl ErrUserNotFound"
    using up by (simp add: Postgres_GetByID_def us find_no_live_id)
  have e: "\<not> (Email r = Email u \<and> live r)" if "r \<in> set ?xs" for r
    using assms(2) assms(3) assms(4) that
    by (intro no_live_key [where f = Email and xs = "users d"])
       (simp_all add: table_ok_def tombstone_fields)
  have n: "\<not> (Username r = Username u \<and> live r)" if "r \<in> set ?xs" for r
    using assms(2) assms(3) assms(4) that
    by (intro no_live_key [where f = Username and xs = "users d"])
       (simp_all add: table_ok_def tombstone_fields)
  have fe: "find (\<lambda>r. Email r = Email u \<and> live r) ?xs = None"
    unfolding find_None_iff using e by blast
  have fn: "find (\<lambda>r. Username r = Username u \<and> live r) ?xs = None"
    unfolding find_None_iff using n by blast
  have 6: "Postgres_GetByEmail (Email u) d' = Inl ErrUserNotFound"
    using up by (simp add: Postgres_GetByEmail_def us fe)
  have 7: "Postgres_GetByUsername (Username u) d' = Inl ErrUserNotFound"
    using up by (simp add: Postgres_GetByUsername_def us fn)
  have 8: "Postgres_ExistsByEmail (Email u) d' = Inr False"
    using up e by (simp add: Postgres_ExistsByEmail_def us filter_empty_conv del: set_map)
  have 9: "Postgres_ExistsByUsername (Username u) d' = Inr False"
    using up n by (simp add: Postgres_ExistsByUsername_def us filter_empty_conv del: set_map)
  have 10: "case Postgres_List ilike page pageSize search role status d' of
        Inl e \<Rightarrow> True
      | Inr (us, n) \<Rightarrow> ID u \<notin> set (map ID us)"
  proof (cases "Postgres_List ilike page pageSize search role status d'")
    case (Inl a)
    then show ?thesis by simp
  next
    case (Inr b)
    obtain rs k where b: "b = (rs, k)" by (cases b)
    have "ID r \<noteq> ID u" if "r \<in> set rs" for r
    proof -
      have "r \<in> set ?xs \<and> live r"
        using Postgres_List_live [OF Inr [unfolded b] that] us by simp
      then obtain r0 where "r = tombstone (ID u) (db_now d) r0" by auto
      with \<open>r \<in> set ?xs \<and> live r\<close> show ?thesis
        using tombstone_live [of "ID u" "db_now d" r0] by (simp add: tombstone_fields)
    qed
    then have "\<forall>r\<in>set rs. ID r \<noteq> ID u"
      by blast
    then have "ID u \<notin> set (map ID rs)"
      by (metis (no_types, lifting) imageE list.set_map)
    then show ?thesis
      by (simp add: Inr b)
  qed
  have nohit: "filter (\<lambda>r. ID r = ID u \<and> live r) (users d') = []"
    by (simp add: us no_live_id)
  have 11: "Postgres_Delete (ID u) d' = (Some ErrUserNotFound, d')"
    using up nohit by (simp add: Postgres_Delete_def Let_def)
  have 12: "Postgres_Update (x\<lparr>ID := ID u\<rparr>) d' = (Some ErrUserNotFound, d')"
    using up nohit by (simp add: Postgres_Update_def Let_def)
  have 13: "table_ok d'"
    unfolding d' using assms(2) by (rule table_ok_tombstone)
  have 14: "fst (DeleteUser uc (ID u) \<lparr>store = d, cache = c\<rparr>) = None"
    "store (snd (DeleteUser uc (ID u) \<lparr>store = d, cache = c\<rparr>)) = d'"
    using del d' by (simp_all add: DeleteUser_def assms(6) NewPostgresUserRepository_def)
  have 15: "fst (GetProfile uc libs (ID u) \<lparr>store = d', cache = c\<rparr>) = Inl ErrUserNotFound"
    using 5 by (simp add: GetProfile_def assms(6) NewPostgresUserRepository_def errors_Is_def)
  have 16: "Login uc libs draw \<lparr>LoginEmail = Email u, LoginPassword = pw\<rparr>
              \<lparr>store = d', cache = c\<rparr> = Inl ErrInvalidCredentials"
    using 6 by (simp add: Login_cases assms(6) NewPostgresUserRepository_def)
  have 17: "Status (NewUser now uuid email username password fullName role') = ''active''"
    by (simp add: NewUser_def)
  have 18: "case Register uc libs now uuid salt req w of
        (Inl e, w') \<Rightarrow> True
      | (Inr resp, w') \<Rightarrow>
          RespStatus resp = ''active'' \<and> Status (last (users (store w'))) = ''active'' \<and>
          live (last (users (store w'))) \<and> ID (last (users (store w'))) = RespID resp \<and>
          butlast (users (store w')) = users (store w)"
  proof (cases "Register uc libs now uuid salt req w")
    case (Pair res w')
    show ?thesis
    proof (cases res)
      case (Inl e)
      then show ?thesis using Pair by simp
    next
      case (Inr resp)
      have "RespStatus resp = ''active''"
        using Register_active [of uc libs now uuid salt req w resp] Pair Inr by simp
      moreover obtain r where "users (store w') = users (store w) @ [r]"
        "Status r = ''active''" "live r" "ID r = RespID resp"
        using Register_Postgres_row [OF assms(6) Pair [unfolded Inr]] by blast
      ultimately show ?thesis
        using Pair Inr by simp
    qed
  qed
  show ?thesis
    using 1 2 3 4 5 6 7 8 9 10 11 12 13 14 15 16 17 18 by blast
qed

theorem soft_delete_witness:
  "fst (Postgres_Delete (ID alice) demo_db) = None \<and>
   map ID (users (snd (Postgres_Delete (ID alice) demo_db))) = map ID (users demo_db) \<and>
   find (\<lambda>r. ID r = ID alice) (users (snd (Postgres_Delete (ID alice) demo_db))) =
     Some (MarkAsDeleted (db_now demo_db) alice) \<and>
   Postgres_GetByID (ID alice) (snd (Postgres_Delete (ID alice) demo_db)) = Inl ErrUserNotFound \<and>
   Postgres_GetByEmail (Email alice) (snd (Postgres_Delete (ID alice) demo_db)) =
     Inl ErrUserNotFound \<and>
   Postgres_ExistsByEmail (Email alice) (snd (Postgres_Delete (ID alice) demo_db)) = Inr False \<and>
   Postgres_Delete (ID alice) (snd (Postgres_Delete (ID alice) demo_db)) =
     (Some ErrUserNotFound, snd (Postgres_Delete (ID alice) demo_db)) \<and>
   fst (DeleteUser demo_uc (ID alice) demo_world) = None \<and>
   Login demo_uc demo_libs demo_draw \<lparr>LoginEmail = Email alice, LoginPassword = ''Abcdef1!''\<rparr>
     \<lparr>store = snd (Postgres_Delete (ID alice) demo_db), cache = cache demo_world\<rparr> =
     Inl ErrInvalidCredentials"
proof -
  have up: "db_up demo_db"
    by code_simp
  have ok: "table_ok demo_db"
    by code_simp
  have mem: "alice \<in> set (users demo_db)"
    by (simp add: demo_db_def)
  have lv: "live alice"
    by code_simp
  have repo: "userRepo demo_uc = NewPostgresUserRepository (\<lambda>v p. False)"
    by (simp add: demo_uc_def)
  have w: "demo_world = \<lparr>store = demo_db, cache = cache demo_world\<rparr>"
    by (simp add: demo_world_def)
  show ?thesis
    using soft_delete [OF up ok mem lv refl repo, where c = "cache demo_world"
        and libs = demo_libs and draw = demo_draw and pw = "''Abcdef1!''"] w
    by metis
qed

end
